theory Spec2Isabelle
  imports Main "HOL-Library.Word" "HOL-Library.AList"
begin

section \<open>Shared data\<close>

text \<open>
  Message payloads are byte slices (\<^verbatim>\<open>[]byte\<close>). A \<^verbatim>\<open>MessageType\<close> is an interface with
  the methods \<^verbatim>\<open>Text\<close>, \<^verbatim>\<open>MD5Sum\<close> and \<^verbatim>\<open>Name\<close> (message.go); only what these methods
  return matters here, so it is a record of the three strings.
\<close>

type_synonym bytes = "8 word list"

record MessageType =
  Text :: string
  MD5Sum :: string
  Name :: string

text \<open>
  A Go channel variable: the zero value \<^verbatim>\<open>nil\<close>, or a channel made with a capacity.
  A receive from, or a send to, a nil channel never becomes ready.
\<close>

datatype chan = NilChan | MadeChan nat

text \<open>
  Every panic value raised in the modelled code is an \<^verbatim>\<open>error\<close> carrying a message.
  \<^verbatim>\<open>Panic\<close> is an unrecovered panic of the calling goroutine, \<^verbatim>\<open>Err\<close> an error returned
  to the caller, \<^verbatim>\<open>Fatal\<close> the end of the process through \<^verbatim>\<open>Logger.Fatalf\<close>.
\<close>

datatype error = Panic string | Err string | Fatal string

section \<open>The publisher-side session (remoteSubscriberSession)\<close>

record remoteSubscriberSession =
  sess_nodeId :: string
  sess_topic :: string
  sess_md5sum :: string
  sess_typeName :: string
  sess_quitChan :: chan
  sess_msgChan :: chan
  sess_errorChan :: chan

text \<open>A connection header is a list of key/value pairs (\<^verbatim>\<open>header{key, value}\<close>).\<close>

type_synonym header = "string \<times> string"

text \<open>
  What the session does on its connection, in order: the response header it writes, the
  4-byte length prefix of a frame, the payload of a frame. Each entry is a write the code
  issues; whether the peer receives it is the connection's business.
\<close>

datatype conn_action =
    WriteHeader "header list"
  | WriteSize "32 word"
  | WriteBytes bytes

text \<open>The connection's answer to one write: done, deadline passed, any other error.\<close>

datatype write_result = WriteOK | WriteTimeout | WriteError string

text \<open>
  One iteration of the \<^verbatim>\<open>select\<close> of the streaming loop: a payload arrives on
  \<^verbatim>\<open>msgChan\<close>, the quit signal arrives, or the 10 ms timer fires. A timer event carries the
  connection's answers to the two writes of a frame (the second is read only if the first
  write succeeded).
\<close>

datatype sess_event =
    RecvMsg bytes
  | RecvQuit
  | Tick write_result write_result

text \<open>
  How \<^verbatim>\<open>start\<close> ends: it returns after the quit signal; it panics with an error, which
  the deferred \<^verbatim>\<open>recover\<close> sends to \<^verbatim>\<open>errorChan\<close>; or the events given are used up and
  the loop is still waiting in \<^verbatim>\<open>select\<close> with the queue shown.
\<close>

datatype sess_outcome =
    Returned
  | Failed string
  | Streaming "bytes list"

definition queueMaxSize :: nat where
  "queueMaxSize = 100"

text \<open>
  The \<^verbatim>\<open>msgChan\<close> branch: at capacity the front element is removed, then the payload is
  pushed at the back.
\<close>

definition enqueue :: "bytes list \<Rightarrow> bytes \<Rightarrow> bytes list" where
  "enqueue queue msg =
     (if length queue = queueMaxSize then tl queue else queue) @ [msg]"

definition emit :: "conn_action list \<Rightarrow> conn_action list \<times> sess_outcome
                      \<Rightarrow> conn_action list \<times> sess_outcome" where
  "emit acts r = (acts @ fst r, snd r)"

text \<open>
  The streaming loop (step 3 of \<^verbatim>\<open>start\<close>). On a timer event with a non-empty queue the
  front payload is removed first and then written: its length as a little-endian
  \<^verbatim>\<open>uint32\<close>, then the bytes. A timeout on either write goes to the next iteration
  (\<^verbatim>\<open>continue\<close>), any other error panics.
\<close>

fun streaming :: "bytes list \<Rightarrow> sess_event list \<Rightarrow> conn_action list \<times> sess_outcome" where
  "streaming queue [] = ([], Streaming queue)"
| "streaming queue (RecvMsg msg # evs) = streaming (enqueue queue msg) evs"
| "streaming queue (RecvQuit # evs) = ([], Returned)"
| "streaming queue (Tick r1 r2 # evs) =
     (case queue of
        [] \<Rightarrow> streaming queue evs
      | msg # rest \<Rightarrow>
          (let size = (word_of_nat (length msg) :: 32 word) in
           case r1 of
             WriteTimeout \<Rightarrow> emit [WriteSize size] (streaming rest evs)
           | WriteError e \<Rightarrow> ([WriteSize size], Failed e)
           | WriteOK \<Rightarrow>
               (case r2 of
                  WriteTimeout \<Rightarrow> emit [WriteSize size, WriteBytes msg] (streaming rest evs)
                | WriteError e \<Rightarrow> ([WriteSize size, WriteBytes msg], Failed e)
                | WriteOK \<Rightarrow> emit [WriteSize size, WriteBytes msg] (streaming rest evs))))"

text \<open>
  The map built from the peer's header: a later pair overwrites an earlier one with the
  same key. Reading a key that is absent from a Go map gives the zero value, the empty
  string.
\<close>

definition headerMap :: "header list \<Rightarrow> (string \<rightharpoonup> string)" where
  "headerMap headers = fold (\<lambda>h m. m(fst h \<mapsto> snd h)) headers Map.empty"

definition go_index :: "(string \<rightharpoonup> string) \<Rightarrow> string \<Rightarrow> string" where
  "go_index m k = (case m k of None \<Rightarrow> [] | Some v \<Rightarrow> v)"

text \<open>
  The connection as the session sees it during the handshake: the result of
  \<^verbatim>\<open>readConnectionHeader\<close> and whether \<^verbatim>\<open>writeConnectionHeader\<close> succeeds.
\<close>

record conn_env =
  readConnectionHeader :: "string + header list"
  writeConnectionHeader :: "string option"

definition start :: "remoteSubscriberSession \<Rightarrow> conn_env \<Rightarrow> sess_event list
                       \<Rightarrow> conn_action list \<times> sess_outcome" where
  "start session conn evs =
     (case readConnectionHeader conn of
        Inl err \<Rightarrow> ([], Failed ''Failed to read connection header.'')
      | Inr headers \<Rightarrow>
          (let hm = headerMap headers in
           if go_index hm ''type'' \<noteq> sess_typeName session
              \<or> go_index hm ''md5sum'' \<noteq> sess_md5sum session
           then ([], Failed ''Incomatible message type!'')
           else
             (let resHeaders = [(''md5sum'', sess_md5sum session),
                                (''type'', sess_typeName session)] in
              case writeConnectionHeader conn of
                Some err \<Rightarrow> ([WriteHeader resHeaders], Failed ''Failed to write response header.'')
              | None \<Rightarrow> emit [WriteHeader resHeaders] (streaming [] evs))))"

section \<open>The topic publisher (defaultPublisher)\<close>

text \<open>
  A listener is known to the code only through its address; \<^verbatim>\<open>hostAndPort\<close> splits
  \<^verbatim>\<open>listener.Addr().String()\<close> into host and port, so the listener is the pair of both.
\<close>

record listener =
  lst_host :: string
  lst_port :: string

text \<open>
  The values that meet in interface variables of the control loop: the elements of the
  \<^verbatim>\<open>sessions\<close> list are pointers to sessions (known by their address), the value received
  from \<^verbatim>\<open>sessionErrorChan\<close> (a \<^verbatim>\<open>chan error\<close>) is an error. Go's \<^verbatim>\<open>==\<close> on interface
  values compares the dynamic type and then the value, which is equality of this datatype.
\<close>

datatype go_value = VSession nat | VError string

record defaultPublisher =
  pub_nodeId :: string
  pub_nodeApiUri :: string
  pub_masterUri :: string
  pub_topic :: string
  pub_msgType :: MessageType
  pub_msgChan :: chan
  pub_shutdownChan :: chan
  pub_sessions :: "go_value list"
  pub_listenerErrorChan :: chan
  pub_sessionErrorChan :: chan
  pub_listener :: listener

text \<open>
  \<^verbatim>\<open>newDefaultPublisher\<close>; the first argument is the result of
  \<^verbatim>\<open>listenRandomPort("127.0.0.1", 10)\<close>. The function makes \<^verbatim>\<open>shutdownChan\<close>,
  \<^verbatim>\<open>msgChan\<close> and \<^verbatim>\<open>listenerErrorChan\<close>; it never assigns \<^verbatim>\<open>sessionErrorChan\<close>, which
  keeps the zero value.
\<close>

definition newDefaultPublisher ::
  "string + listener \<Rightarrow> string \<Rightarrow> string \<Rightarrow> string \<Rightarrow> string \<Rightarrow> MessageType
     \<Rightarrow> error + defaultPublisher" where
  "newDefaultPublisher listenRandomPort nodeId nodeApiUri masterUri topic msgType =
     (case listenRandomPort of
        Inl err \<Rightarrow> Inl (Panic err)
      | Inr l \<Rightarrow>
          Inr \<lparr> pub_nodeId = nodeId, pub_nodeApiUri = nodeApiUri, pub_masterUri = masterUri,
                pub_topic = topic, pub_msgType = msgType,
                pub_msgChan = MadeChan 10, pub_shutdownChan = MadeChan 0,
                pub_sessions = [],
                pub_listenerErrorChan = MadeChan 0, pub_sessionErrorChan = NilChan,
                pub_listener = l \<rparr>)"

definition hostAndPort :: "defaultPublisher \<Rightarrow> string \<times> string" where
  "hostAndPort pub = (lst_host (pub_listener pub), lst_port (pub_listener pub))"

definition newRemoteSubscriberSession :: "defaultPublisher \<Rightarrow> remoteSubscriberSession" where
  "newRemoteSubscriberSession pub =
     \<lparr> sess_nodeId = pub_nodeId pub, sess_topic = pub_topic pub,
       sess_md5sum = MD5Sum (pub_msgType pub), sess_typeName = Name (pub_msgType pub),
       sess_quitChan = MadeChan 0, sess_msgChan = MadeChan 10,
       sess_errorChan = pub_sessionErrorChan pub \<rparr>"

text \<open>
  One accepted connection in \<^verbatim>\<open>listenRemoteSubscriber\<close>: the new session, allocated at
  the given address, is pushed at the back of the list.
\<close>

definition listenRemoteSubscriber_accept :: "defaultPublisher \<Rightarrow> nat \<Rightarrow> defaultPublisher" where
  "listenRemoteSubscriber_accept pub a = pub\<lparr>pub_sessions := pub_sessions pub @ [VSession a]\<rparr>"

text \<open>What the control loop does to the outside: channel sends to sessions, the listener, the master.\<close>

datatype pub_action =
    SendMsg nat bytes
  | SendQuit nat
  | ListenerClose
  | UnregisterPublisher string string string string

datatype pub_event =
    MsgEvent bytes
  | ListenerErrorEvent string
  | SessionErrorEvent string
  | ShutdownEvent

datatype pub_status = Running | Exited | Panicked string

text \<open>
  The two loops over the session list that assert every element to be a session
  (\<^verbatim>\<open>e.Value.(*remoteSubscriberSession)\<close>); a failed assertion panics.
\<close>

fun send_all :: "(nat \<Rightarrow> pub_action) \<Rightarrow> go_value list \<Rightarrow> pub_action list \<times> string option" where
  "send_all f [] = ([], None)"
| "send_all f (VSession a # es) = (let r = send_all f es in (f a # fst r, snd r))"
| "send_all f (VError e # es) = ([], Some ''interface conversion: interface {} is error'')"

text \<open>
  The loop of the \<^verbatim>\<open>sessionErrorChan\<close> branch: the first element equal to the received
  value is removed, and the loop stops there.
\<close>

fun remove_session :: "go_value \<Rightarrow> go_value list \<Rightarrow> go_value list" where
  "remove_session session [] = []"
| "remove_session session (e # es) = (if e = session then es else e # remove_session session es)"

text \<open>
  One iteration of the \<^verbatim>\<open>select\<close> in \<^verbatim>\<open>defaultPublisher.start\<close>. The result is \<open>None\<close>
  when the branch cannot be taken because its channel is nil. In the
  \<^verbatim>\<open>sessionErrorChan\<close> branch the two-value receive binds \<^verbatim>\<open>session\<close> to the received
  error and \<^verbatim>\<open>err\<close> to the receive's success flag.
\<close>

definition start_select :: "defaultPublisher \<Rightarrow> pub_event
    \<Rightarrow> (pub_action list \<times> pub_status \<times> defaultPublisher) option" where
  "start_select pub ev =
     (case ev of
        MsgEvent msg \<Rightarrow>
          (if pub_msgChan pub = NilChan then None
           else (let r = send_all (\<lambda>a. SendMsg a msg) (pub_sessions pub) in
                 case snd r of
                   Some p \<Rightarrow> Some (fst r, Panicked p, pub)
                 | None \<Rightarrow> Some (fst r, Running, pub)))
      | ListenerErrorEvent err \<Rightarrow>
          (if pub_listenerErrorChan pub = NilChan then None
           else Some ([ListenerClose], Exited, pub))
      | SessionErrorEvent err \<Rightarrow>
          (if pub_sessionErrorChan pub = NilChan then None
           else (let session = VError err in
                 Some ([], Running,
                       pub\<lparr>pub_sessions := remove_session session (pub_sessions pub)\<rparr>)))
      | ShutdownEvent \<Rightarrow>
          (if pub_shutdownChan pub = NilChan then None
           else (let pre = [ListenerClose,
                            UnregisterPublisher (pub_masterUri pub) (pub_nodeId pub)
                              (pub_topic pub) (pub_nodeApiUri pub)];
                     r = send_all SendQuit (pub_sessions pub) in
                 case snd r of
                   Some p \<Rightarrow> Some (pre @ fst r, Panicked p, pub)
                 | None \<Rightarrow> Some (pre @ fst r, Exited, pub\<lparr>pub_sessions := []\<rparr>))))"

section \<open>The node (defaultNode)\<close>

subsection \<open>Values and helpers\<close>

text \<open>
  The dynamically typed values (\<^verbatim>\<open>interface{}\<close>) that cross the XML-RPC boundary: what a
  handler receives and what it puts into its result. \<^verbatim>\<open>XPublisher a\<close> is a pointer to the
  publisher object allocated at address \<open>a\<close>.
\<close>

datatype xvalue =
    XNil
  | XInt int
  | XStr string
  | XBool bool
  | XList "xvalue list"
  | XPublisher nat

text \<open>A pointer: the address of the object and the object found there.\<close>

datatype 'a ptr = Ptr (addr: nat) (deref: 'a)

definition APIStatusError :: int where "APIStatusError = - 1"
definition APIStatusFailure :: int where "APIStatusFailure = 0"
definition APIStatusSuccess :: int where "APIStatusSuccess = 1"

text \<open>
  Modelled from the spec: \<^verbatim>\<open>buildRosAPIResult\<close> is called in node.go and defined
  elsewhere; every response is the 3-tuple (statusCode, message, value).
\<close>

definition buildRosAPIResult :: "int \<Rightarrow> string \<Rightarrow> xvalue \<Rightarrow> xvalue" where
  "buildRosAPIResult code message v = XList [XInt code, XStr message, v]"

text \<open>
  A loop that asserts every element of a list to be a string, in order
  (\<^verbatim>\<open>URI.(string)\<close>, \<^verbatim>\<open>item.(string)\<close>): \<open>None\<close> when some assertion fails.
\<close>

fun assert_strings :: "xvalue list \<Rightarrow> string list option" where
  "assert_strings [] = Some []"
| "assert_strings (XStr u # vs) = map_option ((#) u) (assert_strings vs)"
| "assert_strings (v # vs) = None"

text \<open>
  \<^verbatim>\<open>strconv.ParseInt(s, 10, 32)\<close>: an optional sign, at least one decimal digit, nothing
  else, and a value that fits a signed 32-bit integer; otherwise an error.
\<close>

definition isDigit :: "char \<Rightarrow> bool" where
  "isDigit c = (48 \<le> (of_char c :: nat) \<and> (of_char c :: nat) \<le> 57)"

definition digitsValue :: "string \<Rightarrow> int" where
  "digitsValue ds = foldl (\<lambda>n c. 10 * n + (int (of_char c) - 48)) 0 ds"

definition ParseInt :: "string \<Rightarrow> int option" where
  "ParseInt s =
     (let neg = (s \<noteq> [] \<and> hd s = CHR ''-'');
          ds = (if s \<noteq> [] \<and> (hd s = CHR ''-'' \<or> hd s = CHR ''+'') then tl s else s) in
      if ds = [] \<or> \<not> list_all isDigit ds then None
      else (let v = (if neg then - digitsValue ds else digitsValue ds) in
            if - 2147483648 \<le> v \<and> v \<le> 2147483647 then Some v else None))"

definition HasPrefix :: "string \<Rightarrow> string \<Rightarrow> bool" where
  "HasPrefix s p = (take (length p) s = p)"

text \<open>
  \<^verbatim>\<open>strings.Split(arg, ":=")\<close>: the pieces between successive leftmost occurrences of the
  separator. The first argument collects the current piece in reverse.
\<close>

fun Split_Remap :: "string \<Rightarrow> string \<Rightarrow> string list" where
  "Split_Remap acc (c # d # cs) =
     (if c = CHR '':'' \<and> d = CHR ''=''
      then rev acc # Split_Remap [] cs
      else Split_Remap (c # acc) (d # cs))"
| "Split_Remap acc [c] = [rev (c # acc)]"
| "Split_Remap acc [] = [rev acc]"

text \<open>
  A \<^verbatim>\<open>NameMap\<close> (\<^verbatim>\<open>map[string]string\<close>) and the registries of the node are association
  lists with one entry per key: \<open>map_of\<close> reads, \<open>AList.update\<close> assigns. Go leaves the
  order of a \<^verbatim>\<open>range\<close> over a map open; here it is the order of the list.
\<close>

type_synonym NameMap = "(string \<times> string) list"

definition processArguments_arg :: "string
    \<Rightarrow> NameMap \<times> NameMap \<times> NameMap \<times> string list
    \<Rightarrow> NameMap \<times> NameMap \<times> NameMap \<times> string list" where
  "processArguments_arg arg st =
     (case st of (mapping, params, specials, rest) \<Rightarrow>
        (let components = Split_Remap [] arg in
         if length components = 2 then
           (let key = components ! 0; val = components ! 1 in
            if HasPrefix key ''__'' then (mapping, params, AList.update key val specials, rest)
            else if HasPrefix key ''_'' then (mapping, AList.update (tl key) val params, specials, rest)
            else (AList.update key val mapping, params, specials, rest))
         else (mapping, params, specials, rest @ [arg])))"

definition processArguments :: "string list \<Rightarrow> NameMap \<times> NameMap \<times> NameMap \<times> string list" where
  "processArguments args = fold processArguments_arg args ([], [], [], [])"

subsection \<open>The node and its surroundings\<close>

record defaultSubscriber =
  sub_topic :: string
  sub_msgType :: MessageType
  sub_callbacks :: "nat list"
  sub_pubListChan :: "string list list"

text \<open>
  Modelled from the spec: \<^verbatim>\<open>newDefaultSubscriber\<close> and the struct it fills are not in
  src; node.go reads \<^verbatim>\<open>topic\<close>, \<^verbatim>\<open>msgType\<close>, \<^verbatim>\<open>callbacks\<close> and \<^verbatim>\<open>pubListChan\<close>. A
  subscriber holds the ordered sequence of registered callbacks, the first call giving
  the first one. A callback is known by a number; the channel is the list of the values
  sent to it, oldest first.
\<close>

definition newDefaultSubscriber :: "string \<Rightarrow> MessageType \<Rightarrow> nat \<Rightarrow> defaultSubscriber" where
  "newDefaultSubscriber topic msgType callback =
     \<lparr> sub_topic = topic, sub_msgType = msgType, sub_callbacks = [callback],
       sub_pubListChan = [] \<rparr>"

text \<open>
  What the node starts or calls outside itself, in order, and every assignment to its
  \<^verbatim>\<open>ok\<close> field.
\<close>

datatype node_event =
    OkStore bool
  | GoInterruptHandler
  | GoHttpServe
  | GoPublisherStart nat
  | GoSubscriberStart nat
  | SubscriberShutdown nat
  | PublisherShutdown nat
  | ServerShutdown nat
  | WaitGroupWait
  | XmlrpcListenerClose
  | XmlrpcHandlerWaitForShutdown

text \<open>
  The fields of the Go struct that the modelled functions use (locks, the logger and the
  signal channel left out), followed by three fields that are not in the struct and record
  the world around it: the calls made to the master (method and arguments after the
  master's address), the next free address for a new object, and the events above.
\<close>

record defaultNode =
  name :: string
  namespace :: string
  qualifiedName :: string
  masterURI :: string
  xmlrpcURI :: string
  subscribers :: "(string \<times> defaultSubscriber ptr) list"
  publishers :: "(string \<times> defaultPublisher ptr) list"
  servers :: "(string \<times> nat) list"
  jobChan :: chan
  ok :: bool
  logDir :: string
  hostname :: string
  listenIP :: string
  homeDir :: string
  nameResolver :: "string \<times> string \<times> NameMap"
  nonRosArgs :: "string list"
  srvClientOpts :: "int list"
  srvServerOpts :: "int list"
  masterCalls :: "(string \<times> xvalue list) list"
  nextAddr :: nat
  events :: "node_event list"

text \<open>
  What the node code calls and src does not hold: the name resolver's \<^verbatim>\<open>remap\<close> (applied
  to the resolver built by \<^verbatim>\<open>newNameResolver(namespace, name, remapping)\<close>), the master's
  answer to \<^verbatim>\<open>callRosAPI(uri, method, args...)\<close>, the outcome of binding a publisher's
  listener, the process environment, \<^verbatim>\<open>qualifyNodeName\<close>, \<^verbatim>\<open>determineHost\<close>,
  \<^verbatim>\<open>filepath.Join\<close>, and the port that \<^verbatim>\<open>net.Listen("tcp", ":0")\<close> binds.
\<close>

record env =
  remap :: "string \<times> string \<times> NameMap \<Rightarrow> string \<Rightarrow> string"
  callRosAPI :: "string \<Rightarrow> string \<Rightarrow> xvalue list \<Rightarrow> string + xvalue"
  listenRandomPort :: "string + listener"
  Getenv :: "string \<Rightarrow> string"
  Getpid :: int
  qualifyNodeName :: "string \<Rightarrow> string + string \<times> string"
  determineHost :: "string \<times> bool"
  Join :: "string \<Rightarrow> string \<Rightarrow> string"
  Listen :: "string + string"

text \<open>
  A node option is one of the two that the package defines; a service option is a TCP
  timeout, known by its duration.
\<close>

datatype NodeOption = NodeServiceClientOptions "int list" | NodeServiceServerOptions "int list"

fun apply_option :: "NodeOption \<Rightarrow> defaultNode \<Rightarrow> defaultNode" where
  "apply_option (NodeServiceClientOptions opts) n = n\<lparr>srvClientOpts := opts\<rparr>"
| "apply_option (NodeServiceServerOptions opts) n = n\<lparr>srvServerOpts := opts\<rparr>"

text \<open>\<^verbatim>\<open>new(defaultNode)\<close>: every field has its zero value.\<close>

definition zero_node :: defaultNode where
  "zero_node =
     \<lparr> name = [], namespace = [], qualifiedName = [], masterURI = [], xmlrpcURI = [],
       subscribers = [], publishers = [], servers = [], jobChan = NilChan, ok = False,
       logDir = [], hostname = [], listenIP = [], homeDir = [],
       nameResolver = ([], [], []), nonRosArgs = [], srvClientOpts = [], srvServerOpts = [],
       masterCalls = [], nextAddr = 0, events = [] \<rparr>"

definition call_master :: "env \<Rightarrow> defaultNode \<Rightarrow> string \<Rightarrow> xvalue list
    \<Rightarrow> (string + xvalue) \<times> defaultNode" where
  "call_master e node method args =
     (callRosAPI e (masterURI node) method args,
      node\<lparr>masterCalls := masterCalls node @ [(method, args)]\<rparr>)"

definition emit_event :: "node_event \<Rightarrow> defaultNode \<Rightarrow> defaultNode" where
  "emit_event ev node = node\<lparr>events := events node @ [ev]\<rparr>"

text \<open>The loop over \<^verbatim>\<open>params\<close> in \<^verbatim>\<open>newDefaultNode\<close>; the first error is returned.\<close>

fun setParams :: "env \<Rightarrow> defaultNode \<Rightarrow> NameMap \<Rightarrow> string + defaultNode" where
  "setParams e node [] = Inr node"
| "setParams e node ((k, v) # ps) =
     (let r = call_master e node ''setParam'' [XStr (qualifiedName node), XStr k, XStr v] in
      case fst r of
        Inl err \<Rightarrow> Inl err
      | Inr _ \<Rightarrow> setParams e (snd r) ps)"

subsection \<open>Construction\<close>

text \<open>
  \<^verbatim>\<open>newDefaultNode\<close>. An error of \<^verbatim>\<open>qualifyNodeName\<close> or of a \<^verbatim>\<open>setParam\<close> call is
  returned; a failing \<^verbatim>\<open>net.Listen\<close> goes through \<^verbatim>\<open>Fatalf\<close>. The goroutine that waits
  for the interrupt signal and the HTTP server are started (events); what the former does
  when the signal arrives is \<open>interrupt\<close> below.
\<close>

definition newDefaultNode :: "env \<Rightarrow> string \<Rightarrow> string list \<Rightarrow> NodeOption list
    \<Rightarrow> error + defaultNode" where
  "newDefaultNode e nm args opts =
     (let node = fold apply_option opts zero_node in
      case qualifyNodeName e nm of
        Inl err \<Rightarrow> Inl (Err err)
      | Inr (ns, nodeName) \<Rightarrow>
          (case processArguments args of (remapping, params, specials, rest) \<Rightarrow>
            (let node = node\<lparr>homeDir :=
                   (if Getenv e ''ROS_HOME'' \<noteq> [] then Getenv e ''ROS_HOME''
                    else Join e (Getenv e ''HOME'') ''.ros'')\<rparr>;
                 node = node\<lparr>name :=
                   (case map_of specials ''__name'' of Some v \<Rightarrow> v | None \<Rightarrow> nodeName)\<rparr>;
                 node = node\<lparr>namespace :=
                   (case map_of specials ''__ns'' of
                      Some v \<Rightarrow> v
                    | None \<Rightarrow> if Getenv e ''ROS_NAMESPACE'' \<noteq> [] then Getenv e ''ROS_NAMESPACE''
                              else ns)\<rparr>;
                 node = node\<lparr>logDir :=
                   (case map_of specials ''__log'' of
                      Some v \<Rightarrow> v
                    | None \<Rightarrow> if Getenv e ''ROS_LOG_DIR'' \<noteq> [] then Getenv e ''ROS_LOG_DIR''
                              else Join e (homeDir node) ''log'')\<rparr>;
                 hl = (case map_of specials ''__hostname'' of
                         Some v \<Rightarrow> (v, v = ''localhost'')
                       | None \<Rightarrow>
                           (case map_of specials ''__ip'' of
                              Some v \<Rightarrow> (v, v = ''::1'' \<or> HasPrefix v ''127.'')
                            | None \<Rightarrow> determineHost e));
                 node = node\<lparr>hostname := fst hl,
                             listenIP := (if snd hl then ''127.0.0.1'' else ''0.0.0.0'')\<rparr>;
                 node = node\<lparr>masterURI :=
                   (case map_of specials ''__master'' of
                      Some v \<Rightarrow> v
                    | None \<Rightarrow> Getenv e ''ROS_MASTER_URI'')\<rparr>;
                 node = node\<lparr>nameResolver := (namespace node, name node, remapping),
                             nonRosArgs := rest\<rparr>;
                 node = node\<lparr>qualifiedName :=
                   (if length (namespace node) = 1 then namespace node @ name node
                    else namespace node @ ''/'' @ name node)\<rparr>;
                 node = node\<lparr>subscribers := [], publishers := [], servers := []\<rparr>;
                 node = emit_event (OkStore True) (node\<lparr>ok := True\<rparr>);
                 node = emit_event GoInterruptHandler node;
                 node = node\<lparr>jobChan := MadeChan 100\<rparr> in
             case setParams e node params of
               Inl err \<Rightarrow> Inl (Err err)
             | Inr node \<Rightarrow>
                 (case Listen e of
                    Inl err \<Rightarrow> Inl (Fatal (''NewDefaultNode: '' @ err))
                  | Inr port \<Rightarrow>
                      Inr (emit_event GoHttpServe
                             (node\<lparr>xmlrpcURI := ''http://'' @ hostname node @ '':'' @ port\<rparr>))))))"

text \<open>The body of the signal goroutine once the interrupt has arrived.\<close>

definition interrupt :: "defaultNode \<Rightarrow> defaultNode" where
  "interrupt node = emit_event (OkStore False) (node\<lparr>ok := False\<rparr>)"

definition OK :: "defaultNode \<Rightarrow> bool" where
  "OK node = ok node"

subsection \<open>The peer-facing RPC handlers\<close>

definition getBusStats :: "defaultNode \<Rightarrow> string \<Rightarrow> xvalue" where
  "getBusStats node callerID = buildRosAPIResult APIStatusError ''Not implemented'' (XInt 0)"

definition getBusInfo :: "defaultNode \<Rightarrow> string \<Rightarrow> xvalue" where
  "getBusInfo node callerID = buildRosAPIResult APIStatusError ''Not implemeted'' (XInt 0)"

definition getmasterURI :: "defaultNode \<Rightarrow> string \<Rightarrow> xvalue" where
  "getmasterURI node callerID = buildRosAPIResult APIStatusSuccess ''Success'' (XStr (masterURI node))"

definition shutdown :: "defaultNode \<Rightarrow> string \<Rightarrow> string \<Rightarrow> xvalue \<times> defaultNode" where
  "shutdown node callerID msg =
     (buildRosAPIResult APIStatusSuccess ''Success'' (XInt 0),
      emit_event (OkStore False) (node\<lparr>ok := False\<rparr>))"

definition getPid :: "env \<Rightarrow> defaultNode \<Rightarrow> string \<Rightarrow> xvalue" where
  "getPid e node callerID = buildRosAPIResult APIStatusSuccess ''Success'' (XInt (Getpid e))"

definition getSubscriptions :: "defaultNode \<Rightarrow> string \<Rightarrow> xvalue" where
  "getSubscriptions node callerID =
     buildRosAPIResult APIStatusSuccess ''Success''
       (XList (map (\<lambda>(t, s). XList [XStr t, XStr (Name (sub_msgType (deref s)))])
                   (subscribers node)))"

text \<open>
  In \<^verbatim>\<open>getPublications\<close> the loop variable \<^verbatim>\<open>typ\<close> is the value of the map entry, the
  pointer to the publisher, and it is put into the pair as it is.
\<close>

definition getPublications :: "defaultNode \<Rightarrow> string \<Rightarrow> xvalue" where
  "getPublications node callerID =
     buildRosAPIResult APIStatusSuccess ''Success''
       (XList (map (\<lambda>(topic, typ). XList [XStr topic, XPublisher (addr typ)])
                   (publishers node)))"

definition paramUpdate :: "defaultNode \<Rightarrow> string \<Rightarrow> string \<Rightarrow> xvalue \<Rightarrow> xvalue" where
  "paramUpdate node callerID key v = buildRosAPIResult APIStatusError ''Not implemented'' (XInt 0)"

text \<open>
  \<^verbatim>\<open>publisherUpdate\<close>. With a subscriber for the topic every element of the list is
  asserted to be a string; a failing assertion panics before anything is sent. Otherwise
  the list of strings is sent to the subscriber's \<^verbatim>\<open>pubListChan\<close>.
\<close>

definition publisherUpdate :: "defaultNode \<Rightarrow> string \<Rightarrow> string \<Rightarrow> xvalue list
    \<Rightarrow> error + xvalue \<times> defaultNode" where
  "publisherUpdate node callerID topic pubs =
     (case map_of (subscribers node) topic of
        None \<Rightarrow> Inr (buildRosAPIResult APIStatusFailure ''No such topic'' (XInt 0), node)
      | Some sub \<Rightarrow>
          (case assert_strings pubs of
             None \<Rightarrow> Inl (Panic ''interface conversion: interface {} is not string'')
           | Some pubURIs \<Rightarrow>
               (let sub' = Ptr (addr sub)
                      ((deref sub)\<lparr>sub_pubListChan := sub_pubListChan (deref sub) @ [pubURIs]\<rparr>) in
                Inr (buildRosAPIResult APIStatusSuccess ''Success'' (XInt 0),
                     node\<lparr>subscribers := AList.update topic sub' (subscribers node)\<rparr>))))"

text \<open>
  The loop of \<^verbatim>\<open>requestTopic\<close> over the offered protocols. Each element is asserted to be
  a list, its first element is read (an empty list is an index out of range) and asserted
  to be a string. The first element named TCPROS ends the loop.
\<close>

fun selectProtocol :: "defaultPublisher \<Rightarrow> xvalue list \<Rightarrow> error + xvalue list" where
  "selectProtocol pub [] = Inr []"
| "selectProtocol pub (XList (XStr protocolName # ps) # vs) =
     (if protocolName = ''TCPROS'' then
        (case ParseInt (snd (hostAndPort pub)) of
           None \<Rightarrow> Inl (Err ''strconv.ParseInt: parsing failed'')
         | Some port \<Rightarrow> Inr [XStr ''TCPROS'', XStr (fst (hostAndPort pub)), XInt port])
      else selectProtocol pub vs)"
| "selectProtocol pub (XList [] # vs) = Inl (Panic ''index out of range'')"
| "selectProtocol pub (XList (p # ps) # vs) =
     Inl (Panic ''interface conversion: interface {} is not string'')"
| "selectProtocol pub (v # vs) =
     Inl (Panic ''interface conversion: interface {} is not []interface {}'')"

definition requestTopic :: "defaultNode \<Rightarrow> string \<Rightarrow> string \<Rightarrow> xvalue list \<Rightarrow> error + xvalue" where
  "requestTopic node callerID topic protocols =
     (case map_of (publishers node) topic of
        None \<Rightarrow> Inr (buildRosAPIResult APIStatusFailure ''No such topic'' XNil)
      | Some pub \<Rightarrow>
          (case selectProtocol (deref pub) protocols of
             Inl err \<Rightarrow> Inl err
           | Inr selectedProtocol \<Rightarrow>
               Inr (buildRosAPIResult APIStatusSuccess ''Success'' (XList selectedProtocol))))"

subsection \<open>Creating publishers, subscribers and service servers\<close>

text \<open>
  Modelled from the spec: \<^verbatim>\<open>Logger.Fatalf\<close> is not in src; a registration error is
  fatal, creation fails outright. A call of \<^verbatim>\<open>Fatalf\<close> is the result \<^verbatim>\<open>Fatal\<close> with
  the formatted message.
\<close>

definition Fatalf :: "string \<Rightarrow> string \<Rightarrow> error" where
  "Fatalf fmt err = Fatal (fmt @ err)"

text \<open>
  \<^verbatim>\<open>NewPublisherWithCallbacks\<close>. The registry is read at \<^verbatim>\<open>topic\<close>, the argument as
  given, and written at \<^verbatim>\<open>name\<close>, the remapped argument. The publisher is built from the
  node's identity, as the constructor in src takes it (the two callbacks are not part of
  that publisher), and its control goroutine is started.
\<close>

definition NewPublisherWithCallbacks :: "env \<Rightarrow> defaultNode \<Rightarrow> string \<Rightarrow> MessageType
    \<Rightarrow> error + defaultPublisher ptr \<times> defaultNode" where
  "NewPublisherWithCallbacks e node topic msgType =
     (let nm = remap e (nameResolver node) topic in
      case map_of (publishers node) topic of
        Some pub \<Rightarrow> Inr (pub, node)
      | None \<Rightarrow>
          (let r = call_master e node ''registerPublisher''
                     [XStr (qualifiedName node), XStr nm, XStr (Name msgType),
                      XStr (xmlrpcURI node)] in
           case fst r of
             Inl err \<Rightarrow> Inl (Fatalf ''Failed to call registerPublisher(): '' err)
           | Inr _ \<Rightarrow>
               (case newDefaultPublisher (listenRandomPort e) (qualifiedName node)
                       (xmlrpcURI node) (masterURI node) nm msgType of
                  Inl p \<Rightarrow> Inl p
                | Inr obj \<Rightarrow>
                    (let node1 = snd r;
                         pub = Ptr (nextAddr node1) obj;
                         node2 = node1\<lparr>publishers := AList.update nm pub (publishers node1),
                                       nextAddr := Suc (nextAddr node1)\<rparr> in
                     Inr (pub, emit_event (GoPublisherStart (addr pub)) node2)))))"

definition NewPublisher :: "env \<Rightarrow> defaultNode \<Rightarrow> string \<Rightarrow> MessageType
    \<Rightarrow> error + defaultPublisher ptr \<times> defaultNode" where
  "NewPublisher e node topic msgType =
     (let nm = remap e (nameResolver node) topic in
      NewPublisherWithCallbacks e node nm msgType)"

text \<open>
  \<^verbatim>\<open>NewSubscriber\<close> reads and writes the registry at the remapped name. The master's
  result must be a list of strings. The removal function handed to the subscriber's
  goroutine runs when that goroutine ends, outside this function.
\<close>

definition NewSubscriber :: "env \<Rightarrow> defaultNode \<Rightarrow> string \<Rightarrow> MessageType \<Rightarrow> nat
    \<Rightarrow> error + defaultSubscriber ptr \<times> defaultNode" where
  "NewSubscriber e node topic msgType callback =
     (let nm = remap e (nameResolver node) topic in
      case map_of (subscribers node) nm of
        Some sub \<Rightarrow>
          (let sub' = Ptr (addr sub)
                 ((deref sub)\<lparr>sub_callbacks := sub_callbacks (deref sub) @ [callback]\<rparr>) in
           Inr (sub', node\<lparr>subscribers := AList.update nm sub' (subscribers node)\<rparr>))
      | None \<Rightarrow>
          (let r = call_master e node ''registerSubscriber''
                     [XStr (qualifiedName node), XStr nm, XStr (Name msgType),
                      XStr (xmlrpcURI node)] in
           case fst r of
             Inl err \<Rightarrow> Inl (Fatalf ''Failed to call registerSubscriber() for '' err)
           | Inr (XList items) \<Rightarrow>
               (case assert_strings items of
                  None \<Rightarrow> Inl (Fatal ''Publisher list contains no string object'')
                | Some pubURIs \<Rightarrow>
                    (let node1 = snd r;
                         obj = newDefaultSubscriber nm msgType callback;
                         sub = Ptr (nextAddr node1) (obj\<lparr>sub_pubListChan := [pubURIs]\<rparr>);
                         node2 = node1\<lparr>subscribers := AList.update nm sub (subscribers node1),
                                       nextAddr := Suc (nextAddr node1)\<rparr> in
                     Inr (sub, emit_event (GoSubscriberStart (addr sub)) node2)))
           | Inr _ \<Rightarrow> Inl (Fatal ''result is not []string'')))"

text \<open>
  \<^verbatim>\<open>NewServiceServer\<close>; servers are known by their address. The flag says whether
  \<^verbatim>\<open>newDefaultServiceServer\<close> (not in src) returns a server rather than nil.
\<close>

definition NewServiceServer :: "env \<Rightarrow> defaultNode \<Rightarrow> string \<Rightarrow> bool
    \<Rightarrow> nat option \<times> defaultNode" where
  "NewServiceServer e node service built =
     (let nm = remap e (nameResolver node) service;
          node1 = (case map_of (servers node) nm of
                     Some server \<Rightarrow> emit_event (ServerShutdown server) node
                   | None \<Rightarrow> node) in
      if \<not> built then (None, node1)
      else (let server = nextAddr node1 in
            (Some server, node1\<lparr>servers := AList.update nm server (servers node1),
                                nextAddr := Suc server\<rparr>)))"

subsection \<open>Parameters\<close>

definition GetParam :: "env \<Rightarrow> defaultNode \<Rightarrow> string \<Rightarrow> (string + xvalue) \<times> defaultNode" where
  "GetParam e node key =
     call_master e node ''getParam'' [XStr (qualifiedName node), XStr (remap e (nameResolver node) key)]"

definition SetParam :: "env \<Rightarrow> defaultNode \<Rightarrow> string \<Rightarrow> xvalue \<Rightarrow> string option \<times> defaultNode" where
  "SetParam e node key v =
     (let r = call_master e node ''setParam''
                [XStr (qualifiedName node), XStr (remap e (nameResolver node) key), v] in
      (case fst r of Inl err \<Rightarrow> Some err | Inr _ \<Rightarrow> None, snd r))"

definition HasParam :: "env \<Rightarrow> defaultNode \<Rightarrow> string \<Rightarrow> error + (string + bool) \<times> defaultNode" where
  "HasParam e node key =
     (let r = call_master e node ''hasParam''
                [XStr (qualifiedName node), XStr (remap e (nameResolver node) key)] in
      case fst r of
        Inl err \<Rightarrow> Inr (Inl err, snd r)
      | Inr (XBool b) \<Rightarrow> Inr (Inr b, snd r)
      | Inr _ \<Rightarrow> Inl (Panic ''interface conversion: interface {} is not bool''))"

definition SearchParam :: "env \<Rightarrow> defaultNode \<Rightarrow> string \<Rightarrow> error + (string + string) \<times> defaultNode" where
  "SearchParam e node key =
     (let r = call_master e node ''searchParam'' [XStr (qualifiedName node), XStr key] in
      case fst r of
        Inl err \<Rightarrow> Inr (Inl err, snd r)
      | Inr (XStr k) \<Rightarrow> Inr (Inr k, snd r)
      | Inr _ \<Rightarrow> Inl (Panic ''interface conversion: interface {} is not string''))"

definition DeleteParam :: "env \<Rightarrow> defaultNode \<Rightarrow> string \<Rightarrow> string option \<times> defaultNode" where
  "DeleteParam e node key =
     (let r = call_master e node ''deleteParam''
                [XStr (qualifiedName node), XStr (remap e (nameResolver node) key)] in
      (case fst r of Inl err \<Rightarrow> Some err | Inr _ \<Rightarrow> None, snd r))"

subsection \<open>Shutdown\<close>

text \<open>
  \<^verbatim>\<open>Shutdown\<close> calls into other goroutines, and each of these calls returns only if
  the goroutine on the other side takes part. The goroutines of one publisher: its control
  loop (\<^verbatim>\<open>start\<close>) is waiting in its \<^verbatim>\<open>select\<close>, has returned, or is blocked for ever in
  a channel send; its accept loop (\<^verbatim>\<open>listenRemoteSubscriber\<close>) is accepting, has returned
  after handing its error to the control loop, or is blocked for ever in the send of that
  error; each session of its list is in the state in which \<^verbatim>\<open>start\<close> of the session has
  ended or waits. A session without an entry has not reached its \<^verbatim>\<open>select\<close> and never
  will. \<^verbatim>\<open>pg_pub\<close> is the publisher object as its control loop has it now.
\<close>

datatype loop_state = Looping | LoopReturned | LoopStuck

datatype accept_state = Accepting | AcceptReturned | AcceptStuck

record pub_goroutines =
  pg_pub :: defaultPublisher
  pg_loop :: loop_state
  pg_accept :: accept_state
  pg_sessions :: "(nat \<times> sess_outcome) list"

text \<open>
  The sends of the control loop's shutdown branch, in order. \<^verbatim>\<open>quitChan\<close> is unbuffered
  and a session receives from it only in the \<^verbatim>\<open>select\<close> of its streaming loop, where it
  then returns: a send to a session in any other state never completes, and the loop goes
  no further. The result says whether all sends completed.
\<close>

fun quit_sends :: "(nat \<times> sess_outcome) list \<Rightarrow> pub_action list
    \<Rightarrow> bool \<times> (nat \<times> sess_outcome) list" where
  "quit_sends ss [] = (True, ss)"
| "quit_sends ss (SendQuit a # acts) =
     (case map_of ss a of
        Some (Streaming q) \<Rightarrow> quit_sends (AList.update a Returned ss) acts
      | _ \<Rightarrow> (False, ss))"
| "quit_sends ss (act # acts) = quit_sends ss acts"

text \<open>
  Once the control loop has closed the listener and left its \<^verbatim>\<open>select\<close>, the accept
  loop's \<^verbatim>\<open>Accept\<close> fails and it sends the error to the unbuffered
  \<^verbatim>\<open>listenerErrorChan\<close>, which nobody receives from any more.
\<close>

definition accept_after_Close :: "accept_state \<Rightarrow> accept_state" where
  "accept_after_Close a = (case a of Accepting \<Rightarrow> AcceptStuck | _ \<Rightarrow> a)"

text \<open>
  \<^verbatim>\<open>defaultPublisher.Shutdown\<close>: one send to the unbuffered \<^verbatim>\<open>shutdownChan\<close>. It
  completes (\<open>Some\<close>) only if the control loop is in its \<^verbatim>\<open>select\<close>; the loop then runs
  its shutdown branch, which ends with the loop returned, with the loop blocked in a send
  to a session, or with a panic of the control goroutine (\<open>Inl\<close>).
\<close>

definition pub_Shutdown :: "pub_goroutines \<Rightarrow> (string + pub_goroutines) option" where
  "pub_Shutdown g =
     (if pg_loop g \<noteq> Looping then None
      else
        (case start_select (pg_pub g) ShutdownEvent of
           None \<Rightarrow> None
         | Some (acts, st, pub') \<Rightarrow>
             Some (let r = quit_sends (pg_sessions g) acts;
                       g1 = g\<lparr>pg_accept := accept_after_Close (pg_accept g),
                              pg_sessions := snd r\<rparr> in
                   if \<not> fst r then Inr (g1\<lparr>pg_loop := LoopStuck\<rparr>)
                   else (case st of
                           Panicked p \<Rightarrow> Inl p
                         | Exited \<Rightarrow> Inr (g1\<lparr>pg_pub := pub', pg_loop := LoopReturned\<rparr>)
                         | Running \<Rightarrow> Inr g1))))"

text \<open>
  The goroutines around a node: those of each publisher, by the publisher's address, and
  what src does not hold: whether \<^verbatim>\<open>Shutdown\<close> of a subscriber or of a service server
  returns, whether a subscriber's goroutine leaves the wait group, and whether the RPC
  handler's \<^verbatim>\<open>WaitForShutdown\<close> returns.
\<close>

record goroutines =
  g_pub :: "nat \<Rightarrow> pub_goroutines"
  g_sub_Shutdown_returns :: "nat \<Rightarrow> bool"
  g_sub_done :: "nat \<Rightarrow> bool"
  g_server_Shutdown_returns :: "nat \<Rightarrow> bool"
  g_WaitForShutdown_returns :: bool

text \<open>
  The node's wait group. A publisher's control loop adds itself when it starts and leaves
  when it returns (\<^verbatim>\<open>wg.Add(1); defer wg.Done()\<close>); a subscriber's goroutine is handed the
  wait group. Nothing else is in it: not the accept loops, not the sessions, not the
  signal goroutine, not the HTTP server. \<^verbatim>\<open>Wait\<close> returns when every member has left.
\<close>

definition started_publishers :: "defaultNode \<Rightarrow> nat list" where
  "started_publishers node =
     List.map_filter (\<lambda>ev. case ev of GoPublisherStart a \<Rightarrow> Some a | _ \<Rightarrow> None) (events node)"

definition started_subscribers :: "defaultNode \<Rightarrow> nat list" where
  "started_subscribers node =
     List.map_filter (\<lambda>ev. case ev of GoSubscriberStart a \<Rightarrow> Some a | _ \<Rightarrow> None) (events node)"

definition waitGroup_Wait :: "goroutines \<Rightarrow> defaultNode \<Rightarrow> bool" where
  "waitGroup_Wait g node =
     (list_all (\<lambda>a. pg_loop (g_pub g a) = LoopReturned) (started_publishers node)
      \<and> list_all (g_sub_done g) (started_subscribers node))"

text \<open>
  One call of \<^verbatim>\<open>Shutdown\<close> into its surroundings: \<open>None\<close> when the call never returns,
  \<open>Inl\<close> when a goroutine panics, else the goroutines afterwards.
\<close>

fun call_effect :: "defaultNode \<Rightarrow> goroutines \<Rightarrow> node_event \<Rightarrow> (string + goroutines) option" where
  "call_effect node g (SubscriberShutdown a) =
     (if g_sub_Shutdown_returns g a then Some (Inr g) else None)"
| "call_effect node g (PublisherShutdown a) =
     (case pub_Shutdown (g_pub g a) of
        None \<Rightarrow> None
      | Some (Inl p) \<Rightarrow> Some (Inl p)
      | Some (Inr pg) \<Rightarrow> Some (Inr (g\<lparr>g_pub := (g_pub g)(a := pg)\<rparr>)))"
| "call_effect node g (ServerShutdown a) =
     (if g_server_Shutdown_returns g a then Some (Inr g) else None)"
| "call_effect node g WaitGroupWait = (if waitGroup_Wait g node then Some (Inr g) else None)"
| "call_effect node g XmlrpcHandlerWaitForShutdown =
     (if g_WaitForShutdown_returns g then Some (Inr g) else None)"
| "call_effect node g ev = Some (Inr g)"

text \<open>
  How far \<^verbatim>\<open>Shutdown\<close> has come: it goes on (and at the end has returned), it is blocked
  for ever in a call, or the process has ended by a panic.
\<close>

datatype shutdown_outcome = Returns | BlockedIn node_event | ProcessPanic string

record shutdown_state =
  sd_outcome :: shutdown_outcome
  sd_goroutines :: goroutines
  sd_node :: defaultNode

fun calls :: "node_event list \<Rightarrow> shutdown_state \<Rightarrow> shutdown_state" where
  "calls [] st = st"
| "calls (c # cs) st =
     (if sd_outcome st \<noteq> Returns then st
      else (let node1 = emit_event c (sd_node st) in
            case call_effect node1 (sd_goroutines st) c of
              None \<Rightarrow> st\<lparr>sd_outcome := BlockedIn c, sd_node := node1\<rparr>
            | Some (Inl p) \<Rightarrow> st\<lparr>sd_outcome := ProcessPanic p, sd_node := node1\<rparr>
            | Some (Inr g') \<Rightarrow> calls cs (st\<lparr>sd_goroutines := g', sd_node := node1\<rparr>)))"

text \<open>
  \<^verbatim>\<open>Shutdown\<close>, statement by statement: the flag, the three loops over the registries,
  the wait on the wait group, the close of the listener, the wait for the RPC handler.
  Every call is logged when it is made; a call that does not return ends the sequence.
\<close>

definition Shutdown :: "goroutines \<Rightarrow> defaultNode \<Rightarrow> shutdown_state" where
  "Shutdown g node =
     (let node = emit_event (OkStore False) (node\<lparr>ok := False\<rparr>);
          st = \<lparr> sd_outcome = Returns, sd_goroutines = g, sd_node = node \<rparr>;
          st = calls (map (\<lambda>(t, s). SubscriberShutdown (addr s)) (subscribers node)) st;
          st = calls (map (\<lambda>(t, p). PublisherShutdown (addr p)) (publishers node)) st;
          st = calls (map (\<lambda>(t, s). ServerShutdown s) (servers node)) st;
          st = calls [WaitGroupWait] st;
          st = calls [XmlrpcListenerClose] st;
          st = calls [XmlrpcHandlerWaitForShutdown] st in
      st)"

subsection \<open>The operations on a node\<close>

text \<open>
  Every method of the node defined in node.go and the signal goroutine, as one operation
  each. \<^verbatim>\<open>SpinOnce\<close> and an iteration of \<^verbatim>\<open>Spin\<close> take at most one job from the job
  channel and run it; the node's own code assigns no field there. \<^verbatim>\<open>Shutdown\<close> comes
  with the goroutines it meets.
\<close>

datatype node_op =
    OpInterrupt
  | OpOK
  | OpGetBusStats string
  | OpGetBusInfo string
  | OpGetMasterURI string
  | OpShutdownRPC string string
  | OpGetPid string
  | OpGetSubscriptions string
  | OpGetPublications string
  | OpParamUpdate string string xvalue
  | OpPublisherUpdate string string "xvalue list"
  | OpRequestTopic string string "xvalue list"
  | OpNewPublisher string MessageType
  | OpNewPublisherWithCallbacks string MessageType
  | OpNewSubscriber string MessageType nat
  | OpNewServiceClient string
  | OpNewServiceServer string bool
  | OpSpinOnce
  | OpShutdown goroutines
  | OpGetParam string
  | OpSetParam string xvalue
  | OpHasParam string
  | OpSearchParam string
  | OpDeleteParam string

fun exec :: "env \<Rightarrow> node_op \<Rightarrow> defaultNode \<Rightarrow> error + defaultNode" where
  "exec e OpInterrupt node = Inr (interrupt node)"
| "exec e OpOK node = Inr node"
| "exec e (OpGetBusStats c) node = Inr node"
| "exec e (OpGetBusInfo c) node = Inr node"
| "exec e (OpGetMasterURI c) node = Inr node"
| "exec e (OpShutdownRPC c msg) node = Inr (snd (shutdown node c msg))"
| "exec e (OpGetPid c) node = Inr node"
| "exec e (OpGetSubscriptions c) node = Inr node"
| "exec e (OpGetPublications c) node = Inr node"
| "exec e (OpParamUpdate c k v) node = Inr node"
| "exec e (OpPublisherUpdate c topic pubs) node = map_sum id snd (publisherUpdate node c topic pubs)"
| "exec e (OpRequestTopic c topic protocols) node =
     map_sum id (\<lambda>_. node) (requestTopic node c topic protocols)"
| "exec e (OpNewPublisher topic msgType) node = map_sum id snd (NewPublisher e node topic msgType)"
| "exec e (OpNewPublisherWithCallbacks topic msgType) node =
     map_sum id snd (NewPublisherWithCallbacks e node topic msgType)"
| "exec e (OpNewSubscriber topic msgType cb) node =
     map_sum id snd (NewSubscriber e node topic msgType cb)"
| "exec e (OpNewServiceClient service) node = Inr node"
| "exec e (OpNewServiceServer service built) node = Inr (snd (NewServiceServer e node service built))"
| "exec e OpSpinOnce node = Inr node"
| "exec e (OpShutdown g) node =
     (case sd_outcome (Shutdown g node) of
        ProcessPanic p \<Rightarrow> Inl (Panic p)
      | _ \<Rightarrow> Inr (sd_node (Shutdown g node)))"
| "exec e (OpGetParam k) node = Inr (snd (GetParam e node k))"
| "exec e (OpSetParam k v) node = Inr (snd (SetParam e node k v))"
| "exec e (OpHasParam k) node = map_sum id snd (HasParam e node k)"
| "exec e (OpSearchParam k) node = map_sum id snd (SearchParam e node k)"
| "exec e (OpDeleteParam k) node = Inr (snd (DeleteParam e node k))"

text \<open>
  A sequence of operations; a panic or a fatal error ends the process. A \<^verbatim>\<open>Shutdown\<close>
  that blocks leaves the node as it is at the blocked call, and other goroutines go on.
\<close>

fun run :: "env \<Rightarrow> node_op list \<Rightarrow> defaultNode \<Rightarrow> error + defaultNode" where
  "run e [] node = Inr node"
| "run e (op # ops) node =
     (case exec e op node of
        Inl err \<Rightarrow> Inl err
      | Inr node' \<Rightarrow> run e ops node')"

section \<open>Concrete inputs\<close>

text \<open>
  A message type, and surroundings in which every call succeeds: the resolver of the
  namespace \<^verbatim>\<open>/\<close> with no remapping rule (a name that starts with \<^verbatim>\<open>/\<close> is kept, any
  other name is put under \<^verbatim>\<open>/\<close>), a master that answers every registration with the empty
  list, a publisher listener on 127.0.0.1:40001 and an RPC listener on port 40000. The
  nodes and objects below are what the modelled functions compute there.
\<close>

definition String_type :: MessageType where
  "String_type = \<lparr> Text = ''string data'', MD5Sum = ''992ce8a1687cec8c8bd883ec73ca41d1'',
                   Name = ''std_msgs/String'' \<rparr>"

definition demo_env :: env where
  "demo_env =
     \<lparr> remap = (\<lambda>r n. if n \<noteq> [] \<and> hd n = CHR ''/'' then n else ''/'' @ n),
       callRosAPI = (\<lambda>uri method args.
          if method = ''registerPublisher'' \<or> method = ''registerSubscriber''
          then Inr (XList []) else Inr (XInt 0)),
       listenRandomPort = Inr \<lparr> lst_host = ''127.0.0.1'', lst_port = ''40001'' \<rparr>,
       Getenv = (\<lambda>k. if k = ''ROS_MASTER_URI'' then ''http://localhost:11311''
                      else if k = ''HOME'' then ''/root'' else []),
       Getpid = 4242,
       qualifyNodeName = (\<lambda>n. Inr (''/'', n)),
       determineHost = (''localhost'', True),
       Join = (\<lambda>a b. a @ ''/'' @ b),
       Listen = Inr ''40000'' \<rparr>"

definition talker :: defaultNode where
  "talker =
     \<lparr> name = ''talker'', namespace = ''/'', qualifiedName = ''/talker'',
       masterURI = ''http://localhost:11311'', xmlrpcURI = ''http://localhost:40000'',
       subscribers = [], publishers = [], servers = [], jobChan = MadeChan 100, ok = True,
       logDir = ''/root/.ros/log'', hostname = ''localhost'', listenIP = ''127.0.0.1'',
       homeDir = ''/root/.ros'', nameResolver = (''/'', ''talker'', []), nonRosArgs = [],
       srvClientOpts = [], srvServerOpts = [], masterCalls = [], nextAddr = 0,
       events = [OkStore True, GoInterruptHandler, GoHttpServe] \<rparr>"

definition chatter_pub :: defaultPublisher where
  "chatter_pub =
     \<lparr> pub_nodeId = ''/talker'', pub_nodeApiUri = ''http://localhost:40000'',
       pub_masterUri = ''http://localhost:11311'', pub_topic = ''/chatter'',
       pub_msgType = String_type, pub_msgChan = MadeChan 10, pub_shutdownChan = MadeChan 0,
       pub_sessions = [], pub_listenerErrorChan = MadeChan 0, pub_sessionErrorChan = NilChan,
       pub_listener = \<lparr> lst_host = ''127.0.0.1'', lst_port = ''40001'' \<rparr> \<rparr>"

definition register_chatter :: "string \<times> xvalue list" where
  "register_chatter =
     (''registerPublisher'',
      [XStr ''/talker'', XStr ''/chatter'', XStr ''std_msgs/String'', XStr ''http://localhost:40000''])"

definition talker_pub :: defaultNode where
  "talker_pub =
     talker\<lparr> publishers := [(''/chatter'', Ptr 0 chatter_pub)],
             masterCalls := [register_chatter],
             nextAddr := 1,
             events := [OkStore True, GoInterruptHandler, GoHttpServe, GoPublisherStart 0] \<rparr>"

definition talker_pub2 :: defaultNode where
  "talker_pub2 =
     talker\<lparr> publishers := [(''/chatter'', Ptr 1 chatter_pub)],
             masterCalls := [register_chatter, register_chatter],
             nextAddr := 2,
             events := [OkStore True, GoInterruptHandler, GoHttpServe, GoPublisherStart 0,
                        GoPublisherStart 1] \<rparr>"

definition chatter_sub :: defaultSubscriber where
  "chatter_sub =
     \<lparr> sub_topic = ''/chatter'', sub_msgType = String_type, sub_callbacks = [7],
       sub_pubListChan = [[]] \<rparr>"

definition listener_node :: defaultNode where
  "listener_node =
     talker\<lparr> subscribers := [(''/chatter'', Ptr 0 chatter_sub)],
             masterCalls := [(''registerSubscriber'',
               [XStr ''/talker'', XStr ''/chatter'', XStr ''std_msgs/String'',
                XStr ''http://localhost:40000''])],
             nextAddr := 1,
             events := [OkStore True, GoInterruptHandler, GoHttpServe, GoSubscriberStart 0] \<rparr>"

definition chatter_live :: defaultPublisher where
  "chatter_live = listenRemoteSubscriber_accept (listenRemoteSubscriber_accept chatter_pub 10) 11"

text \<open>
  The node after an interrupt followed by the creation of a publisher, and two peers'
  connections: one presenting another message type, one presenting the publisher's own.
\<close>

definition talker_down :: defaultNode where
  "talker_down =
     talker_pub\<lparr> ok := False,
                 events := [OkStore True, GoInterruptHandler, GoHttpServe, OkStore False,
                            GoPublisherStart 0] \<rparr>"

definition conn_other_type :: conn_env where
  "conn_other_type =
     \<lparr> readConnectionHeader = Inr [(''callerid'', ''/listener''), (''topic'', ''/chatter''),
                                     (''type'', ''std_msgs/Int32''),
                                     (''md5sum'', ''da5909fbe378aeaf85e547e830cc1bb7'')],
       writeConnectionHeader = None \<rparr>"

definition conn_same_type :: conn_env where
  "conn_same_type =
     \<lparr> readConnectionHeader = Inr [(''callerid'', ''/listener''), (''topic'', ''/chatter''),
                                     (''type'', ''std_msgs/String''),
                                     (''md5sum'', ''992ce8a1687cec8c8bd883ec73ca41d1'')],
       writeConnectionHeader = None \<rparr>"

text \<open>
  The goroutines of the publisher on \<^verbatim>\<open>/chatter\<close> in four situations: no peer has
  connected; one peer has connected with the publisher's type and its session is
  streaming; one peer has connected with another type and its session has failed the
  handshake; \<^verbatim>\<open>Accept\<close> has failed and the control loop has returned. Around them every
  call into code that src does not hold returns.
\<close>

definition idle_loop :: pub_goroutines where
  "idle_loop = \<lparr> pg_pub = chatter_pub, pg_loop = Looping, pg_accept = Accepting,
                 pg_sessions = [] \<rparr>"

definition accepted_peer :: pub_goroutines where
  "accepted_peer =
     \<lparr> pg_pub = listenRemoteSubscriber_accept chatter_pub 10, pg_loop = Looping,
       pg_accept = Accepting,
       pg_sessions = [(10, snd (start (newRemoteSubscriberSession chatter_pub) conn_same_type []))] \<rparr>"

definition rejected_peer :: pub_goroutines where
  "rejected_peer =
     \<lparr> pg_pub = listenRemoteSubscriber_accept chatter_pub 10, pg_loop = Looping,
       pg_accept = Accepting,
       pg_sessions = [(10, snd (start (newRemoteSubscriberSession chatter_pub) conn_other_type []))] \<rparr>"

definition listener_failed :: pub_goroutines where
  "listener_failed = \<lparr> pg_pub = chatter_pub, pg_loop = LoopReturned, pg_accept = AcceptReturned,
                       pg_sessions = [] \<rparr>"

definition world :: "pub_goroutines \<Rightarrow> goroutines" where
  "world pg = \<lparr> g_pub = (\<lambda>a. pg), g_sub_Shutdown_returns = (\<lambda>a. True),
                g_sub_done = (\<lambda>a. True), g_server_Shutdown_returns = (\<lambda>a. True),
                g_WaitForShutdown_returns = True \<rparr>"

section \<open>A relation between node states\<close>

text \<open>
  From the first state to the second the flag has not gone from false to true, and the
  events added hold no assignment of true to the flag.
\<close>

definition no_true_store :: "defaultNode \<Rightarrow> defaultNode \<Rightarrow> bool" where
  "no_true_store node node' \<longleftrightarrow>
     (ok node' \<longrightarrow> ok node) \<and> (\<exists>evs. events node' = events node @ evs \<and> OkStore True \<notin> set evs)"

section \<open>The concrete inputs are reached by the code\<close>

lemmas fixture_defs = String_type_def demo_env_def talker_def chatter_pub_def register_chatter_def
  talker_pub_def talker_pub2_def chatter_sub_def listener_node_def

lemma talker_constructed: "newDefaultNode demo_env ''talker'' [] [] = Inr talker"
  by (simp add: newDefaultNode_def processArguments_def zero_node_def emit_event_def
        call_master_def Let_def fixture_defs)

lemma talker_first_publisher:
  "NewPublisherWithCallbacks demo_env talker ''chatter'' String_type = Inr (Ptr 0 chatter_pub, talker_pub)"
  by (simp add: NewPublisherWithCallbacks_def newDefaultPublisher_def call_master_def
        emit_event_def Let_def fixture_defs)

lemma talker_second_publisher:
  "NewPublisherWithCallbacks demo_env talker_pub ''chatter'' String_type
     = Inr (Ptr 1 chatter_pub, talker_pub2)"
  by (simp add: NewPublisherWithCallbacks_def newDefaultPublisher_def call_master_def
        emit_event_def Let_def fixture_defs)

lemma talker_subscribed:
  "NewSubscriber demo_env talker ''chatter'' String_type 7 = Inr (Ptr 0 chatter_sub, listener_node)"
  by (simp add: NewSubscriber_def newDefaultSubscriber_def call_master_def
        emit_event_def Let_def fixture_defs)

section \<open>Properties of the session\<close>

lemma enqueue_length: "length queue \<le> queueMaxSize \<Longrightarrow> length (enqueue queue msg) \<le> queueMaxSize"
  by (cases queue) (auto simp: enqueue_def queueMaxSize_def)

lemma streaming_queue_bound:
  "length queue \<le> queueMaxSize \<Longrightarrow> snd (streaming queue evs) = Streaming q \<Longrightarrow>
   length q \<le> queueMaxSize"
proof (induction queue evs rule: streaming.induct)
  case (1 queue)
  then show ?case by simp
next
  case (2 queue msg evs)
  then show ?case by (simp add: enqueue_length)
next
  case (3 queue evs)
  then show ?case by simp
next
  case (4 queue r1 r2 evs)
  then show ?case
    by (cases queue; cases r1; cases r2) (auto simp: emit_def Let_def)
qed

lemma enqueue_recent:
  assumes "length queue \<le> queueMaxSize"
  shows "enqueue queue msg = drop (length (queue @ [msg]) - queueMaxSize) (queue @ [msg])"
proof (cases "length queue = queueMaxSize")
  case True
  then have "queue \<noteq> []" by (auto simp: queueMaxSize_def)
  then obtain x rest where "queue = x # rest" by (cases queue) auto
  with True show ?thesis by (simp add: enqueue_def)
next
  case False
  with assms show ?thesis by (simp add: enqueue_def)
qed

lemma drop_recent_append:
  "drop (length (drop (length xs - c) xs @ ys) - c) (drop (length xs - c) xs @ ys)
     = drop (length (xs @ ys) - c) (xs @ ys)"
proof (cases "length xs \<le> c")
  case True
  then show ?thesis by simp
next
  case False
  then have "length (drop (length xs - c) xs) = c" by simp
  then show ?thesis using False by (simp add: add.commute)
qed

lemma streaming_msgs:
  "length queue \<le> queueMaxSize \<Longrightarrow>
   streaming queue (map RecvMsg msgs)
     = ([], Streaming (drop (length (queue @ msgs) - queueMaxSize) (queue @ msgs)))"
proof (induction msgs arbitrary: queue)
  case Nil
  then show ?case by simp
next
  case (Cons m msgs)
  have len: "length (enqueue queue m) \<le> queueMaxSize"
    using Cons.prems by (rule enqueue_length)
  have eq: "enqueue queue m = drop (length (queue @ [m]) - queueMaxSize) (queue @ [m])"
    using Cons.prems by (rule enqueue_recent)
  have "streaming queue (map RecvMsg (m # msgs)) = streaming (enqueue queue m) (map RecvMsg msgs)"
    by simp
  also have "\<dots> = ([], Streaming (drop (length (enqueue queue m @ msgs) - queueMaxSize)
                                    (enqueue queue m @ msgs)))"
    using len by (rule Cons.IH)
  also have "drop (length (enqueue queue m @ msgs) - queueMaxSize) (enqueue queue m @ msgs)
             = drop (length ((queue @ [m]) @ msgs) - queueMaxSize) ((queue @ [m]) @ msgs)"
    unfolding eq by (rule drop_recent_append)
  finally show ?case by simp
qed

text \<open>
  C2. Starting from the empty queue that \<^verbatim>\<open>start\<close> creates, after any sequence of payloads
  received with no timer event in between, the queue holds exactly the last
  \<open>min n 100\<close> of the \<open>n\<close> payloads, in the order received, nothing has been written, and
  the queue is at most 100 long.
\<close>

theorem C2_bounded_queue:
  "streaming [] (map RecvMsg msgs)
     = ([], Streaming (drop (length msgs - min (length msgs) 100) msgs))
   \<and> length (drop (length msgs - min (length msgs) 100) msgs) = min (length msgs) 100
   \<and> min (length msgs) 100 \<le> queueMaxSize"
proof -
  have "streaming [] (map RecvMsg msgs)
          = ([], Streaming (drop (length ([] @ msgs) - queueMaxSize) ([] @ msgs)))"
    by (rule streaming_msgs) (simp add: queueMaxSize_def)
  moreover have "length msgs - queueMaxSize = length msgs - min (length msgs) 100"
    by (simp add: queueMaxSize_def)
  ultimately show ?thesis by (simp add: queueMaxSize_def)
qed

lemma streaming_no_header: "WriteHeader hs \<notin> set (fst (streaming queue evs))"
  by (induction queue evs rule: streaming.induct)
     (auto simp: emit_def Let_def split: list.splits write_result.splits)

text \<open>
  C3. For every header read from the peer: if its \<^verbatim>\<open>type\<close> differs from the
  publisher's message type name or its \<^verbatim>\<open>md5sum\<close> from the publisher's hash, the session
  fails with nothing written at all, neither a response header nor a frame. The session
  issues the write of a response header if and only if both fields match, and then that
  write comes first, happens once, and carries the publisher's own \<^verbatim>\<open>md5sum\<close> and
  \<^verbatim>\<open>type\<close>. A field is read from the header as the code reads it: the last pair with
  that key, the empty string if there is none.
\<close>

theorem C3_handshake:
  assumes "readConnectionHeader conn = Inr headers"
  shows "(go_index (headerMap headers) ''type'' \<noteq> Name (pub_msgType pub)
            \<or> go_index (headerMap headers) ''md5sum'' \<noteq> MD5Sum (pub_msgType pub)
          \<longrightarrow> start (newRemoteSubscriberSession pub) conn evs
                = ([], Failed ''Incomatible message type!''))
       \<and> ((\<exists>hs. WriteHeader hs \<in> set (fst (start (newRemoteSubscriberSession pub) conn evs)))
            \<longleftrightarrow> (go_index (headerMap headers) ''type'' = Name (pub_msgType pub)
                 \<and> go_index (headerMap headers) ''md5sum'' = MD5Sum (pub_msgType pub)))
       \<and> (go_index (headerMap headers) ''type'' = Name (pub_msgType pub)
            \<and> go_index (headerMap headers) ''md5sum'' = MD5Sum (pub_msgType pub)
          \<longrightarrow> (\<exists>rest. fst (start (newRemoteSubscriberSession pub) conn evs)
                        = WriteHeader [(''md5sum'', MD5Sum (pub_msgType pub)),
                                       (''type'', Name (pub_msgType pub))] # rest
                      \<and> (\<forall>hs. WriteHeader hs \<notin> set rest)))"
  using assms streaming_no_header[of _ "[]" evs]
  by (auto simp: start_def newRemoteSubscriberSession_def Let_def emit_def split: option.splits)

text \<open>
  The claim at two peers: one of another type is rejected with nothing written, one of
  the publisher's type gets the response header and then the queued frame.
\<close>

theorem C3_handshake_witness:
  "start (newRemoteSubscriberSession chatter_pub) conn_other_type
         [RecvMsg [1, 2], Tick WriteOK WriteOK]
     = ([], Failed ''Incomatible message type!'')
   \<and> start (newRemoteSubscriberSession chatter_pub) conn_same_type
         [RecvMsg [1, 2], Tick WriteOK WriteOK]
     = ([WriteHeader [(''md5sum'', ''992ce8a1687cec8c8bd883ec73ca41d1''),
                      (''type'', ''std_msgs/String'')],
         WriteSize 2, WriteBytes [1, 2]], Streaming [])"
proof -
  have r: "readConnectionHeader conn_other_type
             = Inr [(''callerid'', ''/listener''), (''topic'', ''/chatter''),
                    (''type'', ''std_msgs/Int32''),
                    (''md5sum'', ''da5909fbe378aeaf85e547e830cc1bb7'')]"
    by (simp add: conn_other_type_def)
  have d: "go_index (headerMap [(''callerid'', ''/listener''), (''topic'', ''/chatter''),
                    (''type'', ''std_msgs/Int32''),
                    (''md5sum'', ''da5909fbe378aeaf85e547e830cc1bb7'')]) ''type''
             \<noteq> Name (pub_msgType chatter_pub)"
    by (simp add: go_index_def headerMap_def fixture_defs)
  have bad: "start (newRemoteSubscriberSession chatter_pub) conn_other_type
               [RecvMsg [1, 2], Tick WriteOK WriteOK] = ([], Failed ''Incomatible message type!'')"
    using C3_handshake[OF r, of chatter_pub "[RecvMsg [1, 2], Tick WriteOK WriteOK]"] d
    by blast
  have good: "start (newRemoteSubscriberSession chatter_pub) conn_same_type
         [RecvMsg [1, 2], Tick WriteOK WriteOK]
     = ([WriteHeader [(''md5sum'', ''992ce8a1687cec8c8bd883ec73ca41d1''),
                      (''type'', ''std_msgs/String'')],
         WriteSize 2, WriteBytes [1, 2]], Streaming [])"
    by (simp add: start_def newRemoteSubscriberSession_def conn_same_type_def go_index_def
          headerMap_def emit_def enqueue_def queueMaxSize_def Let_def fixture_defs)
  from bad good show ?thesis by simp
qed

section \<open>Properties of the publisher's control loop\<close>

lemma remove_session_error:
  "list_all (\<lambda>v. \<exists>a. v = VSession a) ss \<Longrightarrow> remove_session (VError err) ss = ss"
  by (induction ss) auto

text \<open>
  C8, at a publisher with two live sessions, of which one fails its handshake. The
  publisher built by \<^verbatim>\<open>newDefaultPublisher\<close> has a nil \<^verbatim>\<open>sessionErrorChan\<close>, and so has
  every session made from it: the branch of the control loop that receives a session's
  error can never be taken. Were the channel made, the branch would compare the list
  elements with the received error value and remove none: the failed session stays in
  the live set.
\<close>

theorem C8_session_error_removes_nothing:
  "newDefaultPublisher (listenRandomPort demo_env) ''/talker'' ''http://localhost:40000''
       ''http://localhost:11311'' ''/chatter'' String_type = Inr chatter_pub
   \<and> sess_errorChan (newRemoteSubscriberSession chatter_live) = NilChan
   \<and> pub_sessions chatter_live = [VSession 10, VSession 11]
   \<and> start_select chatter_live (SessionErrorEvent ''Incomatible message type!'') = None
   \<and> start_select (chatter_live\<lparr>pub_sessionErrorChan := MadeChan 0\<rparr>)
         (SessionErrorEvent ''Incomatible message type!'')
       = Some ([], Running, chatter_live\<lparr>pub_sessionErrorChan := MadeChan 0\<rparr>)"
  by (simp add: newDefaultPublisher_def newRemoteSubscriberSession_def chatter_live_def
        listenRemoteSubscriber_accept_def start_select_def Let_def fixture_defs)

section \<open>Properties of the node\<close>

subsection \<open>Creating publishers\<close>

text \<open>
  C1, at the topic \<^verbatim>\<open>chatter\<close>, which the resolver maps to \<^verbatim>\<open>/chatter\<close>. The first call
  of \<^verbatim>\<open>NewPublisherWithCallbacks\<close> registers with the master and stores the publisher
  under \<^verbatim>\<open>/chatter\<close>. The second call with the same topic looks the registry up under
  \<^verbatim>\<open>chatter\<close>, finds nothing, registers again and returns a new publisher object at
  another address: two \<^verbatim>\<open>registerPublisher\<close> calls, two objects.
\<close>

theorem C1_second_creation_registers_again:
  "remap demo_env (nameResolver talker) ''chatter'' = ''/chatter''
   \<and> NewPublisherWithCallbacks demo_env talker ''chatter'' String_type
       = Inr (Ptr 0 chatter_pub, talker_pub)
   \<and> NewPublisherWithCallbacks demo_env talker_pub ''chatter'' String_type
       = Inr (Ptr 1 chatter_pub, talker_pub2)
   \<and> masterCalls talker_pub2 = [register_chatter, register_chatter]
   \<and> addr (Ptr 0 chatter_pub) \<noteq> addr (Ptr (1::nat) chatter_pub)"
  by (simp add: NewPublisherWithCallbacks_def newDefaultPublisher_def call_master_def
        emit_event_def Let_def fixture_defs)

subsection \<open>Introspection\<close>

text \<open>
  C9, at a node with one publisher of type \<^verbatim>\<open>std_msgs/String\<close> on \<^verbatim>\<open>/chatter\<close>. The
  second element of the pair returned by \<^verbatim>\<open>getPublications\<close> is the pointer to the
  publisher, not the name of its message type; \<^verbatim>\<open>getSubscriptions\<close> on a node with a
  subscriber of that type gives the type name.
\<close>

theorem C9_getPublications_second_element:
  "getPublications talker_pub ''/rosnode''
     = XList [XInt 1, XStr ''Success'', XList [XList [XStr ''/chatter'', XPublisher 0]]]
   \<and> getPublications talker_pub ''/rosnode''
     \<noteq> XList [XInt 1, XStr ''Success'', XList [XList [XStr ''/chatter'', XStr ''std_msgs/String'']]]
   \<and> getSubscriptions listener_node ''/rosnode''
     = XList [XInt 1, XStr ''Success'', XList [XList [XStr ''/chatter'', XStr ''std_msgs/String'']]]"
  by (simp add: getPublications_def getSubscriptions_def buildRosAPIResult_def
        APIStatusSuccess_def fixture_defs)

subsection \<open>Topology updates\<close>

lemma assert_strings_map: "assert_strings (map XStr uris) = Some uris"
  by (induction uris) simp_all

lemma assert_strings_None:
  "assert_strings pubs = None \<longleftrightarrow> (\<exists>v \<in> set pubs. \<forall>u. v \<noteq> XStr u)"
  by (induction pubs rule: assert_strings.induct) auto

text \<open>
  C5. With no subscriber under the topic, \<^verbatim>\<open>publisherUpdate\<close> returns status 0 with the
  message \<^verbatim>\<open>No such topic\<close> and the node is unchanged. With a subscriber, and a list of
  peer URIs, it returns status 1 with the message \<^verbatim>\<open>Success\<close>, the list of URIs is added
  to that subscriber's \<^verbatim>\<open>pubListChan\<close>, and every other subscriber is as before.
\<close>

theorem C5_publisherUpdate:
  "(map_of (subscribers node) topic = None \<longrightarrow>
      publisherUpdate node callerID topic pubs
        = Inr (buildRosAPIResult APIStatusFailure ''No such topic'' (XInt 0), node))
   \<and> (map_of (subscribers node) topic = Some sub \<longrightarrow>
        (\<exists>node'. publisherUpdate node callerID topic (map XStr uris)
                   = Inr (buildRosAPIResult APIStatusSuccess ''Success'' (XInt 0), node')
          \<and> map_of (subscribers node') topic
              = Some (Ptr (addr sub)
                   ((deref sub)\<lparr>sub_pubListChan := sub_pubListChan (deref sub) @ [uris]\<rparr>))
          \<and> (\<forall>t. t \<noteq> topic \<longrightarrow> map_of (subscribers node') t = map_of (subscribers node) t)))"
  by (auto simp: publisherUpdate_def assert_strings_map Let_def update_conv')

text \<open>
  The claim at a node with a subscriber on \<^verbatim>\<open>/chatter\<close>: an update for another topic
  and an update for \<^verbatim>\<open>/chatter\<close>.
\<close>

theorem C5_publisherUpdate_witness:
  "map_of (subscribers listener_node) ''/nope'' = None
   \<and> publisherUpdate listener_node ''/master'' ''/nope'' [XStr ''http://hostA:1234'']
       = Inr (XList [XInt 0, XStr ''No such topic'', XInt 0], listener_node)
   \<and> map_of (subscribers listener_node) ''/chatter'' = Some (Ptr 0 chatter_sub)
   \<and> (\<exists>node'. publisherUpdate listener_node ''/master'' ''/chatter'' [XStr ''http://hostA:1234'']
                  = Inr (XList [XInt 1, XStr ''Success'', XInt 0], node')
          \<and> map_of (subscribers node') ''/chatter''
              = Some (Ptr 0 (chatter_sub\<lparr>sub_pubListChan := [[], [''http://hostA:1234'']]\<rparr>)))"
proof -
  have n: "map_of (subscribers listener_node) ''/nope'' = None"
    and s: "map_of (subscribers listener_node) ''/chatter'' = Some (Ptr 0 chatter_sub)"
    by (simp_all add: fixture_defs)
  have c: "sub_pubListChan chatter_sub = [[]]"
    by (simp add: fixture_defs)
  show ?thesis
    using C5_publisherUpdate[where node = listener_node and topic = "''/nope''"
            and callerID = "''/master''" and pubs = "[XStr ''http://hostA:1234'']"]
          C5_publisherUpdate[where node = listener_node and topic = "''/chatter''"
            and callerID = "''/master''" and sub = "Ptr 0 chatter_sub"
            and uris = "[''http://hostA:1234'']"]
          n s c
    by (auto simp: buildRosAPIResult_def APIStatusFailure_def APIStatusSuccess_def)
qed

text \<open>
  C10. With a subscriber under the topic, a list holding an element that is not a
  string makes \<^verbatim>\<open>publisherUpdate\<close> panic on the type assertion; it returns a result
  exactly when every element is a string.
\<close>

theorem C10_publisherUpdate_panics:
  assumes "map_of (subscribers node) topic = Some sub"
  shows "((\<exists>v \<in> set pubs. \<forall>u. v \<noteq> XStr u) \<longrightarrow>
            publisherUpdate node callerID topic pubs
              = Inl (Panic ''interface conversion: interface {} is not string''))
       \<and> ((\<exists>res. publisherUpdate node callerID topic pubs = Inr res)
            \<longleftrightarrow> (\<forall>v \<in> set pubs. \<exists>u. v = XStr u))"
  using assms assert_strings_None[of pubs]
  by (auto simp: publisherUpdate_def Let_def split: option.splits)

text \<open>
  The claim at a list whose second element is an integer, and at a list of one URI.
\<close>

theorem C10_publisherUpdate_panics_witness:
  "map_of (subscribers listener_node) ''/chatter'' = Some (Ptr 0 chatter_sub)
   \<and> publisherUpdate listener_node ''/master'' ''/chatter'' [XStr ''http://hostA:1234'', XInt 5]
       = Inl (Panic ''interface conversion: interface {} is not string'')
   \<and> (\<exists>res. publisherUpdate listener_node ''/master'' ''/chatter'' [XStr ''http://hostA:1234'']
               = Inr res)"
proof -
  have s: "map_of (subscribers listener_node) ''/chatter'' = Some (Ptr 0 chatter_sub)"
    by (simp add: fixture_defs)
  show ?thesis
    using C10_publisherUpdate_panics[OF s, where pubs = "[XStr ''http://hostA:1234'', XInt 5]"
            and callerID = "''/master''"]
          C10_publisherUpdate_panics[OF s, where pubs = "[XStr ''http://hostA:1234'']"
            and callerID = "''/master''"] s
    by auto
qed

subsection \<open>Protocol negotiation\<close>

text \<open>
  C4 as stated fails: for a published topic and a protocol list that does not offer
  TCPROS, \<^verbatim>\<open>requestTopic\<close> returns status 1 with the message \<^verbatim>\<open>Success\<close> and an empty
  list, not status 0 with \<^verbatim>\<open>No such topic\<close>.
\<close>

theorem C4_no_tcpros_counterexample:
  "map_of (publishers talker_pub) ''/chatter'' = Some (Ptr 0 chatter_pub)
   \<and> requestTopic talker_pub ''/listener'' ''/chatter'' [XList [XStr ''UDPROS'']]
       = Inr (XList [XInt 1, XStr ''Success'', XList []])"
  by (simp add: requestTopic_def buildRosAPIResult_def APIStatusSuccess_def fixture_defs)

lemma selectProtocol_none:
  "\<forall>v \<in> set protocols. \<exists>nm ps. v = XList (XStr nm # ps) \<Longrightarrow>
   \<forall>ps. XList (XStr ''TCPROS'' # ps) \<notin> set protocols \<Longrightarrow>
   selectProtocol pub protocols = Inr []"
  by (induction protocols) auto

lemma selectProtocol_tcpros:
  "\<forall>v \<in> set protocols. \<exists>nm ps. v = XList (XStr nm # ps) \<Longrightarrow>
   XList (XStr ''TCPROS'' # ps) \<in> set protocols \<Longrightarrow>
   ParseInt (lst_port (pub_listener pub)) = Some port \<Longrightarrow>
   selectProtocol pub protocols
     = Inr [XStr ''TCPROS'', XStr (lst_host (pub_listener pub)), XInt port]"
  by (induction protocols) (auto simp: hostAndPort_def)

text \<open>
  C4, amended. For a topic that is not published, \<^verbatim>\<open>requestTopic\<close> returns status 0
  with the message \<^verbatim>\<open>No such topic\<close> and a nil value. For a published topic and a list of
  protocols, each a list that starts with its name: if TCPROS is among them, the result is
  status 1, \<^verbatim>\<open>Success\<close>, and TCPROS with the host and the port of the publisher's
  listener; if TCPROS is not among them, the result is status 1, \<^verbatim>\<open>Success\<close> and the
  empty list.
\<close>

theorem C4_requestTopic:
  "(map_of (publishers node) topic = None \<longrightarrow>
      requestTopic node callerID topic protocols
        = Inr (buildRosAPIResult APIStatusFailure ''No such topic'' XNil))
   \<and> (map_of (publishers node) topic = Some pub
        \<and> (\<forall>v \<in> set protocols. \<exists>nm ps. v = XList (XStr nm # ps))
        \<and> (\<exists>ps. XList (XStr ''TCPROS'' # ps) \<in> set protocols)
        \<and> ParseInt (lst_port (pub_listener (deref pub))) = Some port \<longrightarrow>
      requestTopic node callerID topic protocols
        = Inr (buildRosAPIResult APIStatusSuccess ''Success''
                 (XList [XStr ''TCPROS'', XStr (lst_host (pub_listener (deref pub))), XInt port])))
   \<and> (map_of (publishers node) topic = Some pub
        \<and> (\<forall>v \<in> set protocols. \<exists>nm ps. v = XList (XStr nm # ps))
        \<and> (\<forall>ps. XList (XStr ''TCPROS'' # ps) \<notin> set protocols) \<longrightarrow>
      requestTopic node callerID topic protocols
        = Inr (buildRosAPIResult APIStatusSuccess ''Success'' (XList [])))"
proof (intro conjI impI)
  assume "map_of (publishers node) topic = None"
  then show "requestTopic node callerID topic protocols
        = Inr (buildRosAPIResult APIStatusFailure ''No such topic'' XNil)"
    by (simp add: requestTopic_def)
next
  assume a: "map_of (publishers node) topic = Some pub
        \<and> (\<forall>v \<in> set protocols. \<exists>nm ps. v = XList (XStr nm # ps))
        \<and> (\<exists>ps. XList (XStr ''TCPROS'' # ps) \<in> set protocols)
        \<and> ParseInt (lst_port (pub_listener (deref pub))) = Some port"
  then obtain ps where "XList (XStr ''TCPROS'' # ps) \<in> set protocols" by blast
  with a have "selectProtocol (deref pub) protocols
     = Inr [XStr ''TCPROS'', XStr (lst_host (pub_listener (deref pub))), XInt port]"
    by (intro selectProtocol_tcpros[where ps = ps]) auto
  with a show "requestTopic node callerID topic protocols
        = Inr (buildRosAPIResult APIStatusSuccess ''Success''
                 (XList [XStr ''TCPROS'', XStr (lst_host (pub_listener (deref pub))), XInt port]))"
    by (simp add: requestTopic_def)
next
  assume a: "map_of (publishers node) topic = Some pub
        \<and> (\<forall>v \<in> set protocols. \<exists>nm ps. v = XList (XStr nm # ps))
        \<and> (\<forall>ps. XList (XStr ''TCPROS'' # ps) \<notin> set protocols)"
  then have "selectProtocol (deref pub) protocols = Inr []"
    by (intro selectProtocol_none) auto
  with a show "requestTopic node callerID topic protocols
        = Inr (buildRosAPIResult APIStatusSuccess ''Success'' (XList []))"
    by (simp add: requestTopic_def)
qed

text \<open>
  The three cases at a node that publishes \<^verbatim>\<open>/chatter\<close> on 127.0.0.1:40001.
\<close>

theorem C4_requestTopic_witness:
  "requestTopic talker_pub ''/listener'' ''/nope'' [XList [XStr ''TCPROS'']]
     = Inr (XList [XInt 0, XStr ''No such topic'', XNil])
   \<and> requestTopic talker_pub ''/listener'' ''/chatter''
        [XList [XStr ''UDPROS''], XList [XStr ''TCPROS'']]
     = Inr (XList [XInt 1, XStr ''Success'',
                   XList [XStr ''TCPROS'', XStr ''127.0.0.1'', XInt 40001]])
   \<and> requestTopic talker_pub ''/listener'' ''/chatter'' []
     = Inr (XList [XInt 1, XStr ''Success'', XList []])"
proof -
  have p: "map_of (publishers talker_pub) ''/chatter'' = Some (Ptr 0 chatter_pub)"
    and n: "map_of (publishers talker_pub) ''/nope'' = None"
    by (simp_all add: fixture_defs)
  have port: "ParseInt (lst_port (pub_listener (deref (Ptr (0::nat) chatter_pub)))) = Some 40001"
    by (simp add: ParseInt_def isDigit_def digitsValue_def fixture_defs)
  have host: "lst_host (pub_listener (deref (Ptr (0::nat) chatter_pub))) = ''127.0.0.1''"
    by (simp add: fixture_defs)
  show ?thesis
    using C4_requestTopic[of talker_pub "''/nope''" "''/listener''" "[XList [XStr ''TCPROS'']]"]
      C4_requestTopic[of talker_pub "''/chatter''" "''/listener''"
        "[XList [XStr ''UDPROS''], XList [XStr ''TCPROS'']]" "Ptr 0 chatter_pub" 40001]
      C4_requestTopic[of talker_pub "''/chatter''" "''/listener''" "[]" "Ptr 0 chatter_pub"]
      p n port host
    by (simp add: buildRosAPIResult_def APIStatusSuccess_def APIStatusFailure_def)
qed

subsection \<open>Shutdown and the liveness flag\<close>

declare calls.simps(2) [simp del]

lemma calls_step:
  "calls (c # cs) st =
     (if sd_outcome st \<noteq> Returns then st
      else (case call_effect (emit_event c (sd_node st)) (sd_goroutines st) c of
              None \<Rightarrow> st\<lparr>sd_outcome := BlockedIn c, sd_node := emit_event c (sd_node st)\<rparr>
            | Some (Inl p) \<Rightarrow> st\<lparr>sd_outcome := ProcessPanic p, sd_node := emit_event c (sd_node st)\<rparr>
            | Some (Inr g') \<Rightarrow>
                calls cs (st\<lparr>sd_goroutines := g', sd_node := emit_event c (sd_node st)\<rparr>)))"
  by (simp add: calls.simps(2) Let_def)

lemma calls_ok: "ok (sd_node (calls cs st)) = ok (sd_node st)"
proof (induction cs arbitrary: st)
  case Nil
  then show ?case by simp
next
  case (Cons c cs)
  show ?case
    by (simp add: calls_step Cons.IH emit_event_def split: option.split sum.split)
qed

lemma calls_events:
  "\<exists>evs. events (sd_node (calls cs st)) = events (sd_node st) @ evs \<and> set evs \<subseteq> set cs"
proof (induction cs arbitrary: st)
  case Nil
  then show ?case by simp
next
  case (Cons c cs)
  let ?n = "emit_event c (sd_node st)"
  have ih: "\<And>g'. \<exists>evs. events (sd_node (calls cs (st\<lparr>sd_goroutines := g', sd_node := ?n\<rparr>)))
                 = events (sd_node st) @ c # evs \<and> set evs \<subseteq> set cs"
    using Cons.IH[of "st\<lparr>sd_goroutines := g', sd_node := ?n\<rparr>" for g']
    by (simp add: emit_event_def)
  have one: "\<exists>evs. events ?n = events (sd_node st) @ evs \<and> set evs \<subseteq> set (c # cs)"
    by (rule exI[of _ "[c]"]) (simp add: emit_event_def)
  have zero: "\<exists>evs. events (sd_node st) = events (sd_node st) @ evs \<and> set evs \<subseteq> set (c # cs)"
    by (rule exI[of _ "[]"]) simp
  show ?case
  proof (cases "sd_outcome st = Returns")
    case False
    with zero show ?thesis by (simp add: calls_step)
  next
    case True
    show ?thesis
    proof (cases "call_effect ?n (sd_goroutines st) c")
      case None
      with True one show ?thesis by (simp add: calls_step)
    next
      case (Some r)
      show ?thesis
      proof (cases r)
        case (Inl p)
        with Some True one show ?thesis by (simp add: calls_step)
      next
        case (Inr g')
        from ih[of g'] obtain evs where
          "events (sd_node (calls cs (st\<lparr>sd_goroutines := g', sd_node := ?n\<rparr>)))
             = events (sd_node st) @ c # evs" "set evs \<subseteq> set cs" by blast
        then have "\<exists>evs'. events (sd_node (calls cs (st\<lparr>sd_goroutines := g', sd_node := ?n\<rparr>)))
             = events (sd_node st) @ evs' \<and> set evs' \<subseteq> set (c # cs)"
          by (intro exI[of _ "c # evs"]) auto
        with Some Inr True show ?thesis by (simp add: calls_step)
      qed
    qed
  qed
qed

lemma no_true_store_refl: "no_true_store node node"
  by (simp add: no_true_store_def)

lemma no_true_store_trans [trans]:
  "no_true_store a b \<Longrightarrow> no_true_store b c \<Longrightarrow> no_true_store a c"
  by (auto simp: no_true_store_def)

lemma calls_store:
  "OkStore True \<notin> set cs \<Longrightarrow> no_true_store (sd_node st) (sd_node (calls cs st))"
  using calls_events[of cs st] calls_ok[of cs st]
  by (auto simp: no_true_store_def)

lemma calls_returns_events:
  "sd_outcome (calls cs st) = Returns \<Longrightarrow>
   sd_outcome st = Returns \<and> events (sd_node (calls cs st)) = events (sd_node st) @ cs"
proof (induction cs arbitrary: st)
  case Nil
  then show ?case by simp
next
  case (Cons c cs)
  let ?n = "emit_event c (sd_node st)"
  show ?case
  proof (cases "sd_outcome st = Returns")
    case False
    with Cons.prems show ?thesis by (simp add: calls_step)
  next
    case True
    show ?thesis
    proof (cases "call_effect ?n (sd_goroutines st) c")
      case None
      with True Cons.prems show ?thesis by (simp add: calls_step)
    next
      case (Some r)
      show ?thesis
      proof (cases r)
        case (Inl p)
        with Some True Cons.prems show ?thesis by (simp add: calls_step)
      next
        case (Inr g')
        let ?st = "st\<lparr>sd_goroutines := g', sd_node := ?n\<rparr>"
        have eq: "calls (c # cs) st = calls cs ?st"
          using Some Inr True by (simp add: calls_step)
        with Cons.prems have "sd_outcome (calls cs ?st) = Returns" by simp
        from Cons.IH[OF this] have "events (sd_node (calls cs ?st)) = events ?n @ cs" by simp
        with eq True show ?thesis by (simp add: emit_event_def)
      qed
    qed
  qed
qed

lemma Shutdown_stages:
  "Shutdown g node =
     calls [XmlrpcHandlerWaitForShutdown]
      (calls [XmlrpcListenerClose]
        (calls [WaitGroupWait]
          (calls (map (\<lambda>(t, s). ServerShutdown s) (servers node))
            (calls (map (\<lambda>(t, p). PublisherShutdown (addr p)) (publishers node))
              (calls (map (\<lambda>(t, s). SubscriberShutdown (addr s)) (subscribers node))
                \<lparr> sd_outcome = Returns, sd_goroutines = g,
                  sd_node = emit_event (OkStore False) (node\<lparr>ok := False\<rparr>) \<rparr>)))))"
  by (simp add: Shutdown_def Let_def emit_event_def)

lemma Shutdown_ok: "\<not> ok (sd_node (Shutdown g node))"
  by (simp add: Shutdown_stages calls_ok emit_event_def)

text \<open>
  When \<^verbatim>\<open>Shutdown\<close> returns, it has made exactly these calls in this order: the
  assignment of false to the flag, one \<^verbatim>\<open>Shutdown\<close> per registered subscriber, one per
  registered publisher, one per registered service server, the wait on the wait group,
  the close of the RPC listener, the wait for the RPC handler.
\<close>

lemma Shutdown_returns_order:
  assumes "sd_outcome (Shutdown g node) = Returns"
  shows "events (sd_node (Shutdown g node))
           = events node @ [OkStore False]
             @ map (\<lambda>(t, s). SubscriberShutdown (addr s)) (subscribers node)
             @ map (\<lambda>(t, p). PublisherShutdown (addr p)) (publishers node)
             @ map (\<lambda>(t, s). ServerShutdown s) (servers node)
             @ [WaitGroupWait, XmlrpcListenerClose, XmlrpcHandlerWaitForShutdown]"
proof -
  define s0 where "s0 = \<lparr> sd_outcome = Returns, sd_goroutines = g,
                            sd_node = emit_event (OkStore False) (node\<lparr>ok := False\<rparr>) \<rparr>"
  define s1 where "s1 = calls (map (\<lambda>(t, s). SubscriberShutdown (addr s)) (subscribers node)) s0"
  define s2 where "s2 = calls (map (\<lambda>(t, p). PublisherShutdown (addr p)) (publishers node)) s1"
  define s3 where "s3 = calls (map (\<lambda>(t, s). ServerShutdown s) (servers node)) s2"
  define s4 where "s4 = calls [WaitGroupWait] s3"
  define s5 where "s5 = calls [XmlrpcListenerClose] s4"
  define s6 where "s6 = calls [XmlrpcHandlerWaitForShutdown] s5"
  have sd: "Shutdown g node = s6"
    unfolding Shutdown_stages s6_def s5_def s4_def s3_def s2_def s1_def s0_def ..
  have r6: "sd_outcome (calls [XmlrpcHandlerWaitForShutdown] s5) = Returns"
    using assms unfolding sd s6_def .
  note a6 = calls_returns_events[OF r6]
  have r5: "sd_outcome (calls [XmlrpcListenerClose] s4) = Returns"
    using a6 unfolding s5_def by blast
  note a5 = calls_returns_events[OF r5]
  have r4: "sd_outcome (calls [WaitGroupWait] s3) = Returns"
    using a5 unfolding s4_def by blast
  note a4 = calls_returns_events[OF r4]
  have r3: "sd_outcome (calls (map (\<lambda>(t, s). ServerShutdown s) (servers node)) s2) = Returns"
    using a4 unfolding s3_def by blast
  note a3 = calls_returns_events[OF r3]
  have r2: "sd_outcome (calls (map (\<lambda>(t, p). PublisherShutdown (addr p)) (publishers node)) s1)
              = Returns"
    using a3 unfolding s2_def by blast
  note a2 = calls_returns_events[OF r2]
  have r1: "sd_outcome (calls (map (\<lambda>(t, s). SubscriberShutdown (addr s)) (subscribers node)) s0)
              = Returns"
    using a2 unfolding s1_def by blast
  note a1 = calls_returns_events[OF r1]
  have e0: "events (sd_node s0) = events node @ [OkStore False]"
    by (simp add: s0_def emit_event_def)
  have "events (sd_node s6) = events (sd_node s5) @ [XmlrpcHandlerWaitForShutdown]"
    using a6 unfolding s6_def by blast
  also have "events (sd_node s5) = events (sd_node s4) @ [XmlrpcListenerClose]"
    using a5 unfolding s5_def by blast
  also have "events (sd_node s4) = events (sd_node s3) @ [WaitGroupWait]"
    using a4 unfolding s4_def by blast
  also have "events (sd_node s3)
               = events (sd_node s2) @ map (\<lambda>(t, s). ServerShutdown s) (servers node)"
    using a3 unfolding s3_def by blast
  also have "events (sd_node s2)
               = events (sd_node s1) @ map (\<lambda>(t, p). PublisherShutdown (addr p)) (publishers node)"
    using a2 unfolding s2_def by blast
  also have "events (sd_node s1)
               = events (sd_node s0) @ map (\<lambda>(t, s). SubscriberShutdown (addr s)) (subscribers node)"
    using a1 unfolding s1_def by blast
  also note e0
  finally show ?thesis unfolding sd by simp
qed

lemma Shutdown_store: "no_true_store node (sd_node (Shutdown g node))"
proof -
  have "\<exists>evs. events (sd_node (Shutdown g node)) = events node @ OkStore False # evs
          \<and> OkStore True \<notin> set evs"
  proof -
    define s0 where "s0 = \<lparr> sd_outcome = Returns, sd_goroutines = g,
                              sd_node = emit_event (OkStore False) (node\<lparr>ok := False\<rparr>) \<rparr>"
    define s1 where "s1 = calls (map (\<lambda>(t, s). SubscriberShutdown (addr s)) (subscribers node)) s0"
    define s2 where "s2 = calls (map (\<lambda>(t, p). PublisherShutdown (addr p)) (publishers node)) s1"
    define s3 where "s3 = calls (map (\<lambda>(t, s). ServerShutdown s) (servers node)) s2"
    define s4 where "s4 = calls [WaitGroupWait] s3"
    define s5 where "s5 = calls [XmlrpcListenerClose] s4"
    define s6 where "s6 = calls [XmlrpcHandlerWaitForShutdown] s5"
    have sd: "Shutdown g node = s6"
      unfolding Shutdown_stages s6_def s5_def s4_def s3_def s2_def s1_def s0_def ..
    have "no_true_store (sd_node s0) (sd_node s1)"
      unfolding s1_def by (rule calls_store) auto
    also have "no_true_store (sd_node s1) (sd_node s2)"
      unfolding s2_def by (rule calls_store) auto
    also have "no_true_store (sd_node s2) (sd_node s3)"
      unfolding s3_def by (rule calls_store) auto
    also have "no_true_store (sd_node s3) (sd_node s4)"
      unfolding s4_def by (rule calls_store) auto
    also have "no_true_store (sd_node s4) (sd_node s5)"
      unfolding s5_def by (rule calls_store) auto
    also have "no_true_store (sd_node s5) (sd_node s6)"
      unfolding s6_def by (rule calls_store) auto
    finally have "no_true_store (sd_node s0) (sd_node s6)" .
    then obtain evs where "events (sd_node s6) = events (sd_node s0) @ evs" "OkStore True \<notin> set evs"
      by (auto simp: no_true_store_def)
    then show ?thesis
      unfolding sd by (simp add: s0_def emit_event_def)
  qed
  then obtain evs where "events (sd_node (Shutdown g node)) = events node @ OkStore False # evs"
    "OkStore True \<notin> set evs" by blast
  then have "\<exists>evs'. events (sd_node (Shutdown g node)) = events node @ evs'
               \<and> OkStore True \<notin> set evs'"
    by (intro exI[of _ "OkStore False # evs"]) simp
  then show ?thesis
    using Shutdown_ok[of g node] by (simp add: no_true_store_def)
qed

text \<open>
  The four situations of the publisher's goroutines come from the code: a failing
  \<^verbatim>\<open>Accept\<close> makes the control loop return, and the two sessions are where
  \<^verbatim>\<open>start\<close> leaves them.
\<close>

lemma listener_failed_reached:
  "start_select chatter_pub (ListenerErrorEvent ''accept tcp 127.0.0.1:40001: too many open files'')
     = Some ([ListenerClose], Exited, chatter_pub)"
  by (simp add: start_select_def fixture_defs)

lemma peers_sessions:
  "pg_sessions rejected_peer = [(10, Failed ''Incomatible message type!'')]
   \<and> pg_sessions accepted_peer = [(10, Streaming [])]"
  by (simp add: rejected_peer_def accepted_peer_def start_def newRemoteSubscriberSession_def
        conn_other_type_def conn_same_type_def go_index_def headerMap_def emit_def Let_def
        fixture_defs)

text \<open>
  C6, at the node that publishes \<^verbatim>\<open>/chatter\<close>. When one peer has connected with another
  message type, its session has failed and waits for ever in its deferred send to the nil
  \<^verbatim>\<open>errorChan\<close>; \<^verbatim>\<open>Shutdown\<close> sets the flag and signals the publisher, whose control loop
  then blocks in the send to that session's \<^verbatim>\<open>quitChan\<close> and never leaves the wait group:
  \<^verbatim>\<open>Shutdown\<close> blocks for ever in the wait, the RPC listener is never closed and the
  function never returns. When the publisher's control loop has returned after a listener
  error, \<^verbatim>\<open>Shutdown\<close> blocks for ever in the publisher's \<^verbatim>\<open>Shutdown\<close>. When no peer has
  connected, or one with the right type, \<^verbatim>\<open>Shutdown\<close> makes all its calls in order and
  returns, and the publisher's accept loop has not exited then: it is blocked in the send
  of its error, outside the wait group.
\<close>

theorem C6_shutdown_blocks:
  "sd_outcome (Shutdown (world rejected_peer) talker_pub) = BlockedIn WaitGroupWait
   \<and> events (sd_node (Shutdown (world rejected_peer) talker_pub))
       = events talker_pub @ [OkStore False, PublisherShutdown 0, WaitGroupWait]
   \<and> pg_loop (g_pub (sd_goroutines (Shutdown (world rejected_peer) talker_pub)) 0) = LoopStuck
   \<and> sd_outcome (Shutdown (world listener_failed) talker_pub) = BlockedIn (PublisherShutdown 0)
   \<and> events (sd_node (Shutdown (world listener_failed) talker_pub))
       = events talker_pub @ [OkStore False, PublisherShutdown 0]
   \<and> sd_outcome (Shutdown (world idle_loop) talker_pub) = Returns
   \<and> sd_outcome (Shutdown (world accepted_peer) talker_pub) = Returns
   \<and> events (sd_node (Shutdown (world accepted_peer) talker_pub))
       = events talker_pub @ [OkStore False, PublisherShutdown 0, WaitGroupWait,
                              XmlrpcListenerClose, XmlrpcHandlerWaitForShutdown]
   \<and> pg_sessions (g_pub (sd_goroutines (Shutdown (world accepted_peer) talker_pub)) 0)
       = [(10, Returned)]
   \<and> pg_accept (g_pub (sd_goroutines (Shutdown (world accepted_peer) talker_pub)) 0) = AcceptStuck"
proof -
  have pubs: "publishers talker_pub = [(''/chatter'', Ptr 0 chatter_pub)]"
    and subs: "subscribers talker_pub = []" and srvs: "servers talker_pub = []"
    and evs: "events talker_pub = [OkStore True, GoInterruptHandler, GoHttpServe, GoPublisherStart 0]"
    by (simp_all add: talker_pub_def talker_def)
  have ps: "pub_Shutdown rejected_peer
              = Some (Inr (rejected_peer\<lparr>pg_accept := AcceptStuck, pg_loop := LoopStuck\<rparr>))"
    by (simp add: pub_Shutdown_def start_select_def accept_after_Close_def
          listenRemoteSubscriber_accept_def rejected_peer_def start_def
          newRemoteSubscriberSession_def conn_other_type_def go_index_def headerMap_def
          Let_def fixture_defs)
  have pl: "pub_Shutdown listener_failed = None"
    by (simp add: pub_Shutdown_def listener_failed_def)
  have pi: "pub_Shutdown idle_loop
              = Some (Inr (idle_loop\<lparr>pg_accept := AcceptStuck, pg_loop := LoopReturned\<rparr>))"
    by (simp add: pub_Shutdown_def start_select_def accept_after_Close_def idle_loop_def
          Let_def fixture_defs)
  have pa: "pub_Shutdown accepted_peer
              = Some (Inr (accepted_peer\<lparr>pg_accept := AcceptStuck, pg_sessions := [(10, Returned)],
                                         pg_pub := chatter_pub, pg_loop := LoopReturned\<rparr>))"
    by (simp add: pub_Shutdown_def start_select_def accept_after_Close_def
          listenRemoteSubscriber_accept_def accepted_peer_def start_def
          newRemoteSubscriberSession_def conn_same_type_def go_index_def headerMap_def
          emit_def Let_def fixture_defs)
  show ?thesis
    by (simp add: Shutdown_stages calls_step pubs subs srvs evs ps pl pi pa world_def
          waitGroup_Wait_def started_publishers_def started_subscribers_def
          List.map_filter_simps emit_event_def)
qed

lemma setParams_keeps:
  "setParams e node ps = Inr node' \<Longrightarrow> ok node' = ok node \<and> events node' = events node"
  by (induction e node ps rule: setParams.induct)
     (auto simp: call_master_def Let_def split: sum.splits)

lemma newDefaultNode_ok: "newDefaultNode e nm args opts = Inr node \<Longrightarrow> ok node"
  by (auto simp: newDefaultNode_def Let_def emit_event_def split: sum.splits prod.splits
        dest!: setParams_keeps)

lemma NewPublisherWithCallbacks_store:
  "NewPublisherWithCallbacks e node topic msgType = Inr (p, node') \<Longrightarrow> no_true_store node node'"
  by (auto simp: NewPublisherWithCallbacks_def no_true_store_def call_master_def emit_event_def
        Let_def split: option.splits sum.splits)

lemma NewSubscriber_store:
  "NewSubscriber e node topic msgType cb = Inr (s, node') \<Longrightarrow> no_true_store node node'"
  by (auto simp: NewSubscriber_def no_true_store_def call_master_def emit_event_def
        Let_def split: option.splits sum.splits xvalue.splits)

lemma publisherUpdate_store:
  "publisherUpdate node c topic pubs = Inr (r, node') \<Longrightarrow> no_true_store node node'"
  by (auto simp: publisherUpdate_def no_true_store_def Let_def split: option.splits)

lemma exec_store:
  assumes ex: "exec e op node = Inr node'"
  shows "no_true_store node node'"
proof (cases op)
  case (OpNewPublisher topic msgType)
  with ex show ?thesis
    by (cases "NewPublisher e node topic msgType")
       (auto simp: NewPublisher_def Let_def dest: NewPublisherWithCallbacks_store)
next
  case (OpNewPublisherWithCallbacks topic msgType)
  with ex show ?thesis
    by (cases "NewPublisherWithCallbacks e node topic msgType")
       (auto dest: NewPublisherWithCallbacks_store)
next
  case (OpNewSubscriber topic msgType cb)
  with ex show ?thesis
    by (cases "NewSubscriber e node topic msgType cb") (auto dest: NewSubscriber_store)
next
  case (OpPublisherUpdate c topic pubs)
  with ex show ?thesis
    by (cases "publisherUpdate node c topic pubs") (auto dest: publisherUpdate_store)
next
  case (OpRequestTopic c topic protocols)
  with ex show ?thesis
    by (cases "requestTopic node c topic protocols") (auto simp: no_true_store_refl)
next
  case (OpShutdown g)
  with ex show ?thesis by (auto simp: Shutdown_store split: shutdown_outcome.splits)
next
  case (OpNewServiceServer service built)
  with ex show ?thesis
    by (auto simp: NewServiceServer_def no_true_store_def emit_event_def Let_def
          split: option.splits if_splits)
next
  case (OpHasParam k)
  with ex show ?thesis
    by (auto simp: HasParam_def no_true_store_def call_master_def Let_def
          split: sum.splits xvalue.splits)
next
  case (OpSearchParam k)
  with ex show ?thesis
    by (auto simp: SearchParam_def no_true_store_def call_master_def Let_def
          split: sum.splits xvalue.splits)
qed (use ex in \<open>auto simp: no_true_store_def interrupt_def shutdown_def emit_event_def GetParam_def
       SetParam_def DeleteParam_def call_master_def Let_def\<close>)

lemma run_store: "run e ops node = Inr node' \<Longrightarrow> no_true_store node node'"
proof (induction ops arbitrary: node)
  case Nil
  then show ?case by (simp add: no_true_store_refl)
next
  case (Cons op ops)
  then obtain mid where m: "exec e op node = Inr mid" and r: "run e ops mid = Inr node'"
    by (auto split: sum.splits)
  from exec_store[OF m] Cons.IH[OF r] show ?case by (rule no_true_store_trans)
qed

text \<open>
  C7. A node that \<^verbatim>\<open>newDefaultNode\<close> returns is live. The interrupt handler, the
  \<^verbatim>\<open>shutdown\<close> call and \<^verbatim>\<open>Shutdown\<close> leave the flag false. Along any sequence of
  operations that runs to its end, a flag that is false stays false, and no assignment
  of true to the flag happens.
\<close>

theorem C7_liveness_monotone:
  "(newDefaultNode e nm args opts = Inr node0 \<longrightarrow> OK node0)
   \<and> \<not> OK (interrupt node) \<and> \<not> OK (snd (shutdown node callerID msg))
   \<and> \<not> OK (sd_node (Shutdown g node))
   \<and> (\<forall>node'. run e ops node = Inr node' \<longrightarrow>
         (\<not> OK node \<longrightarrow> \<not> OK node')
         \<and> (\<exists>evs. events node' = events node @ evs \<and> OkStore True \<notin> set evs))"
  using run_store[of e ops node] Shutdown_ok[of g node]
  by (auto simp: OK_def newDefaultNode_ok no_true_store_def interrupt_def shutdown_def emit_event_def)

text \<open>
  The claim at the node constructed above: it is live, it is not after the interrupt,
  and it is still not after a publisher has been created and the process id been asked
  for.
\<close>

theorem C7_liveness_monotone_witness:
  "newDefaultNode demo_env ''talker'' [] [] = Inr talker
   \<and> OK talker
   \<and> \<not> OK (interrupt talker)
   \<and> run demo_env [OpNewPublisherWithCallbacks ''chatter'' String_type, OpGetPid ''/master'']
         (interrupt talker) = Inr talker_down
   \<and> \<not> OK talker_down"
proof -
  have c: "newDefaultNode demo_env ''talker'' [] [] = Inr talker"
    by (rule talker_constructed)
  have r: "run demo_env [OpNewPublisherWithCallbacks ''chatter'' String_type, OpGetPid ''/master'']
         (interrupt talker) = Inr talker_down"
    by (simp add: NewPublisherWithCallbacks_def newDefaultPublisher_def call_master_def
          interrupt_def emit_event_def Let_def talker_down_def fixture_defs)
  show ?thesis
    using C7_liveness_monotone[where e = demo_env and nm = "''talker''" and args = "[]"
            and opts = "[]" and ?node0.0 = talker and node = talker
            and ops = "[OpNewPublisherWithCallbacks ''chatter'' String_type, OpGetPid ''/master'']"]
          C7_liveness_monotone[where e = demo_env and nm = "''talker''" and args = "[]"
            and opts = "[]" and ?node0.0 = talker and node = "interrupt talker"
            and ops = "[OpNewPublisherWithCallbacks ''chatter'' String_type, OpGetPid ''/master'']"]
          c r
    by auto
qed

end
